theory Spec2Isabelle
  imports Main
begin

section \<open>SQL values and three-valued logic\<close>

text \<open>
  The datastore of \<^verbatim>\<open>server/datastore/mysql/microsoft_mdm.go\<close> is a set of MySQL
  statements. A nullable column is an \<open>option\<close> (\<open>None\<close> is NULL), and a condition
  evaluates to TRUE, FALSE or UNKNOWN: \<open>Some True\<close>, \<open>Some False\<close>, \<open>None\<close>.
  A WHERE clause, a join condition and a CASE WHEN branch accept a row only when the
  condition is TRUE.
\<close>

type_synonym sqlbool = "bool option"

definition sql_true :: "sqlbool \<Rightarrow> bool" where
  "sql_true b = (b = Some True)"

definition sql_not :: "sqlbool \<Rightarrow> sqlbool" where
  "sql_not b = map_option Not b"

definition sql_and :: "sqlbool \<Rightarrow> sqlbool \<Rightarrow> sqlbool" where
  "sql_and a b =
     (if a = Some False \<or> b = Some False then Some False
      else if a = Some True \<and> b = Some True then Some True
      else None)"

definition sql_or :: "sqlbool \<Rightarrow> sqlbool \<Rightarrow> sqlbool" where
  "sql_or a b =
     (if a = Some True \<or> b = Some True then Some True
      else if a = Some False \<and> b = Some False then Some False
      else None)"

definition is_null :: "'a option \<Rightarrow> sqlbool" where
  "is_null x = Some (x = None)"

definition is_not_null :: "'a option \<Rightarrow> sqlbool" where
  "is_not_null x = Some (x \<noteq> None)"

text \<open>Comparison of a nullable column with a constant: UNKNOWN on NULL.\<close>

definition sql_eq :: "'a option \<Rightarrow> 'a \<Rightarrow> sqlbool" where
  "sql_eq x v = map_option (\<lambda>a. a = v) x"

definition sql_ne :: "'a option \<Rightarrow> 'a \<Rightarrow> sqlbool" where
  "sql_ne x v = map_option (\<lambda>a. a \<noteq> v) x"

definition sql_ge :: "int option \<Rightarrow> int option \<Rightarrow> sqlbool" where
  "sql_ge x y =
     (case x of None \<Rightarrow> None
      | Some a \<Rightarrow> (case y of None \<Rightarrow> None | Some b \<Rightarrow> Some (b \<le> a)))"

text \<open>\<^verbatim>\<open>COALESCE(a, b)\<close>: the first argument that is not NULL.\<close>

definition coalesce :: "'a option \<Rightarrow> 'a option \<Rightarrow> 'a option" where
  "coalesce a b = (case a of None \<Rightarrow> b | Some v \<Rightarrow> Some v)"

text \<open>
  \<^verbatim>\<open>A LEFT JOIN B ON c\<close>: every row of A with each matching row of B, or once with
  NULLs when no row of B matches.
\<close>

definition left_join :: "'a list \<Rightarrow> ('a \<Rightarrow> 'b list) \<Rightarrow> ('a \<times> 'b option) list" where
  "left_join xs matches =
     concat (map (\<lambda>x. case matches x of
                         [] \<Rightarrow> [(x, None)]
                       | y # ys \<Rightarrow> map (\<lambda>z. (x, Some z)) (y # ys)) xs)"

section \<open>Disk encryption: \<^verbatim>\<open>whereBitLockerStatus\<close>\<close>

text \<open>
  The columns the six conditions of \<^verbatim>\<open>whereBitLockerStatus\<close> read, from the aliases
  \<^verbatim>\<open>hmdm\<close> (host_mdm), \<^verbatim>\<open>hdek\<close> (host_disk_encryption_keys) and \<^verbatim>\<open>hd\<close>
  (host_disks) of the calling query. A timestamp is a number of seconds; the flags are
  MySQL tinyints compared with 0 and 1.
\<close>

record bitlocker_cols =
  hmdm_is_server :: "nat option"
  hdek_base64_encrypted :: "string option"
  hdek_decryptable :: "nat option"
  hdek_updated_at :: "int option"
  hdek_client_error :: "string option"
  hd_encrypted :: "nat option"
  hd_updated_at :: "int option"

datatype DiskEncryptionStatus =
    DiskEncryptionVerified
  | DiskEncryptionVerifying
  | DiskEncryptionActionRequired
  | DiskEncryptionEnforcing
  | DiskEncryptionFailed
  | DiskEncryptionRemovingEnforcement

definition whereNotServer :: "bitlocker_cols \<Rightarrow> sqlbool" where
  "whereNotServer r =
     sql_and (is_not_null (hmdm_is_server r)) (sql_eq (hmdm_is_server r) 0)"

definition whereKeyAvailable :: "bitlocker_cols \<Rightarrow> sqlbool" where
  "whereKeyAvailable r =
     sql_and (sql_and (sql_and
       (is_not_null (hdek_base64_encrypted r))
       (sql_ne (hdek_base64_encrypted r) ''''))
       (is_not_null (hdek_decryptable r)))
       (sql_eq (hdek_decryptable r) 1)"

definition whereEncrypted :: "bitlocker_cols \<Rightarrow> sqlbool" where
  "whereEncrypted r =
     sql_and (is_not_null (hd_encrypted r)) (sql_eq (hd_encrypted r) 1)"

definition whereHostDisksUpdated :: "bitlocker_cols \<Rightarrow> sqlbool" where
  "whereHostDisksUpdated r =
     sql_and (sql_and
       (is_not_null (hd_updated_at r))
       (is_not_null (hdek_updated_at r)))
       (sql_ge (hd_updated_at r) (hdek_updated_at r))"

definition whereClientError :: "bitlocker_cols \<Rightarrow> sqlbool" where
  "whereClientError r =
     sql_and (is_not_null (hdek_client_error r)) (sql_ne (hdek_client_error r) '''')"

text \<open>
  \<^verbatim>\<open>hdek.updated_at >= DATE_SUB(NOW(), INTERVAL 1 HOUR)\<close>: \<open>now\<close> is the time at which
  the statement runs.
\<close>

definition withinGracePeriod :: "int \<Rightarrow> bitlocker_cols \<Rightarrow> sqlbool" where
  "withinGracePeriod now r =
     sql_and (is_not_null (hdek_updated_at r))
             (sql_ge (hdek_updated_at r) (Some (now - 3600)))"

fun whereBitLockerStatus :: "DiskEncryptionStatus \<Rightarrow> int \<Rightarrow> bitlocker_cols \<Rightarrow> sqlbool" where
  "whereBitLockerStatus DiskEncryptionVerified now r =
     sql_and (sql_and (sql_and (sql_and
       (whereNotServer r)
       (sql_not (whereClientError r)))
       (whereKeyAvailable r))
       (whereEncrypted r))
       (whereHostDisksUpdated r)"
| "whereBitLockerStatus DiskEncryptionVerifying now r =
     sql_and (sql_and (sql_and
       (whereNotServer r)
       (sql_not (whereClientError r)))
       (whereKeyAvailable r))
       (sql_or
          (sql_and (whereEncrypted r) (sql_not (whereHostDisksUpdated r)))
          (sql_and (sql_and (sql_not (whereEncrypted r)) (whereHostDisksUpdated r))
                   (withinGracePeriod now r)))"
| "whereBitLockerStatus DiskEncryptionEnforcing now r =
     sql_and (sql_and
       (whereNotServer r)
       (sql_not (whereClientError r)))
       (sql_or
          (sql_not (whereKeyAvailable r))
          (sql_and (whereKeyAvailable r)
             (sql_and (sql_not (whereEncrypted r))
                (sql_or (sql_not (whereHostDisksUpdated r))
                        (sql_not (withinGracePeriod now r))))))"
| "whereBitLockerStatus DiskEncryptionFailed now r =
     sql_and (whereNotServer r) (whereClientError r)"
| "whereBitLockerStatus _ now r = Some False"

text \<open>
  The \<^verbatim>\<open>CASE WHEN ... END AS status\<close> of \<^verbatim>\<open>GetMDMWindowsBitLockerStatus\<close>: the first
  branch whose condition is TRUE, in the order verified, verifying, enforcing, failed;
  NULL when none is.
\<close>

definition bitlocker_status_case :: "int \<Rightarrow> bitlocker_cols \<Rightarrow> DiskEncryptionStatus option" where
  "bitlocker_status_case now r =
     (if sql_true (whereBitLockerStatus DiskEncryptionVerified now r)
        then Some DiskEncryptionVerified
      else if sql_true (whereBitLockerStatus DiskEncryptionVerifying now r)
        then Some DiskEncryptionVerifying
      else if sql_true (whereBitLockerStatus DiskEncryptionEnforcing now r)
        then Some DiskEncryptionEnforcing
      else if sql_true (whereBitLockerStatus DiskEncryptionFailed now r)
        then Some DiskEncryptionFailed
      else None)"

section \<open>Tables\<close>

text \<open>
  The tables the statements of the file read and write, each a list of rows with the
  columns the statements name. The schema itself is not part of the file; a column that
  a statement tests with \<^verbatim>\<open>IS NULL\<close>, \<^verbatim>\<open>IS NOT NULL\<close> or \<^verbatim>\<open>COALESCE\<close> is nullable.
\<close>

record hosts_row =
  h_id :: nat
  h_uuid :: string
  h_platform :: string
  h_team_id :: "nat option"

record host_mdm_row =
  hmdm_host_id :: nat
  is_server :: "nat option"
  enrolled :: "nat option"
  mdm_id :: "nat option"


record hdek_row =
  hdek_host_id :: nat
  base64_encrypted :: "string option"
  decryptable :: "nat option"
  key_updated_at :: "int option"
  client_error :: "string option"

record host_disks_row =
  hd_host_id :: nat
  encrypted :: "nat option"
  disk_updated_at :: "int option"

text \<open>The columns of a joined row; a table that did not match contributes NULLs.\<close>

definition bitlocker_cols_of ::
  "host_mdm_row option \<Rightarrow> hdek_row option \<Rightarrow> host_disks_row option \<Rightarrow> bitlocker_cols" where
  "bitlocker_cols_of m k d =
     \<lparr> hmdm_is_server = Option.bind m is_server,
       hdek_base64_encrypted = Option.bind k base64_encrypted,
       hdek_decryptable = Option.bind k decryptable,
       hdek_updated_at = Option.bind k key_updated_at,
       hdek_client_error = Option.bind k client_error,
       hd_encrypted = Option.bind d encrypted,
       hd_updated_at = Option.bind d disk_updated_at \<rparr>"

section \<open>\<^verbatim>\<open>GetMDMWindowsBitLockerStatus\<close> and \<^verbatim>\<open>GetMDMWindowsBitLockerSummary\<close>\<close>

datatype error =
    HostNil
  | ConfigError string
  | ScanNull
  | EmptyRawResponse
  | NotFound string
  | ExistsError string string "nat option"
  | SQLSyntax
  | Panic
  | PayloadError string
  | PayloadHostMismatch
  | RetriesExhausted

record HostMDM =
  IsServer :: bool

record Host =
  ID :: nat
  Platform :: string
  TeamID :: "nat option"
  MDMInfo :: "HostMDM option"

record HostMDMDiskEncryption =
  Status :: "DiskEncryptionStatus option"
  Detail :: string

text \<open>
  The rows of
  \<^verbatim>\<open>FROM host_mdm hmdm LEFT JOIN host_disk_encryption_keys hdek ON hmdm.host_id = hdek.host_id
   LEFT JOIN host_disks hd ON hmdm.host_id = hd.host_id WHERE hmdm.host_id = ?\<close>.
\<close>

definition bitlocker_status_rows ::
  "host_mdm_row list \<Rightarrow> hdek_row list \<Rightarrow> host_disks_row list \<Rightarrow> nat \<Rightarrow> bitlocker_cols list" where
  "bitlocker_status_rows hmdm hdek hds host_id =
     map (\<lambda>((m, k), d). bitlocker_cols_of (Some m) k d)
       (filter (\<lambda>((m, k), d). hmdm_host_id m = host_id)
         (left_join
            (left_join hmdm (\<lambda>m. filter (\<lambda>k. hmdm_host_id m = hdek_host_id k) hdek))
            (\<lambda>(m, k). filter (\<lambda>d. hmdm_host_id m = hd_host_id d) hds)))"

text \<open>
  \<^verbatim>\<open>GetMDMWindowsBitLockerStatus\<close>. \<open>getConfigEnableDiskEncryption\<close> is the
  datastore's configuration lookup, a parameter here. \<open>sqlx.GetContext\<close> scans the
  first row; with no row the status is enforcing; a NULL status does not scan into the
  string-typed destination and is an error. \<open>None\<close> is the nil result.
\<close>

definition GetMDMWindowsBitLockerStatus ::
  "(nat option \<Rightarrow> error + bool) \<Rightarrow> int \<Rightarrow>
   host_mdm_row list \<Rightarrow> hdek_row list \<Rightarrow> host_disks_row list \<Rightarrow>
   Host option \<Rightarrow> error + HostMDMDiskEncryption option" where
  "GetMDMWindowsBitLockerStatus getConfigEnableDiskEncryption now hmdm hdek hds host =
     (case host of
        None \<Rightarrow> Inl HostNil
      | Some h \<Rightarrow>
          if Platform h \<noteq> ''windows'' then Inr None
          else if (case MDMInfo h of None \<Rightarrow> False | Some i \<Rightarrow> IsServer i) then Inr None
          else (case getConfigEnableDiskEncryption (TeamID h) of
                  Inl e \<Rightarrow> Inl e
                | Inr enabled \<Rightarrow>
                    if \<not> enabled then Inr None
                    else (case bitlocker_status_rows hmdm hdek hds (ID h) of
                            [] \<Rightarrow> Inr (Some \<lparr> Status = Some DiskEncryptionEnforcing, Detail = [] \<rparr>)
                          | r # rs \<Rightarrow>
                              (case bitlocker_status_case now r of
                                 None \<Rightarrow> Inl ScanNull
                               | Some s \<Rightarrow>
                                   Inr (Some \<lparr> Status = Some s,
                                     Detail = (case hdek_client_error r of
                                                 None \<Rightarrow> [] | Some e \<Rightarrow> e) \<rparr>)))))"

record MDMWindowsBitLockerSummary =
  sum_Verified :: nat
  sum_Verifying :: nat
  sum_ActionRequired :: nat
  sum_Enforcing :: nat
  sum_Failed :: nat
  sum_RemovingEnforcement :: nat

text \<open>
  \<^verbatim>\<open>h.team_id IS NULL\<close>, or \<^verbatim>\<open>h.team_id = ?\<close> when the team id is given and positive.
\<close>

definition teamFilter :: "nat option \<Rightarrow> nat option \<Rightarrow> sqlbool" where
  "teamFilter teamID h_team =
     (case teamID of
        None \<Rightarrow> is_null h_team
      | Some t \<Rightarrow> if t > 0 then sql_eq h_team t else is_null h_team)"

text \<open>
  The rows of
  \<^verbatim>\<open>FROM hosts h LEFT JOIN host_disk_encryption_keys hdek ON h.id = hdek.host_id
   LEFT JOIN host_mdm hmdm ON h.id = hmdm.host_id LEFT JOIN host_disks hd ON h.id = hd.host_id
   WHERE h.platform = 'windows' AND hmdm.is_server = 0 AND <team filter>\<close>.
\<close>

definition bitlocker_summary_rows ::
  "hosts_row list \<Rightarrow> host_mdm_row list \<Rightarrow> hdek_row list \<Rightarrow> host_disks_row list \<Rightarrow>
   nat option \<Rightarrow> bitlocker_cols list" where
  "bitlocker_summary_rows hs hmdm hdek hds teamID =
     map (\<lambda>(((h, k), m), d). bitlocker_cols_of m k d)
       (filter (\<lambda>(((h, k), m), d).
            sql_true (sql_and (sql_and
              (Some (h_platform h = ''windows''))
              (sql_eq (Option.bind m is_server) 0))
              (teamFilter teamID (h_team_id h))))
         (left_join
            (left_join
               (left_join hs (\<lambda>h. filter (\<lambda>k. h_id h = hdek_host_id k) hdek))
               (\<lambda>(h, k). filter (\<lambda>m. h_id h = hmdm_host_id m) hmdm))
            (\<lambda>((h, k), m). filter (\<lambda>d. h_id h = hd_host_id d) hds)))"

text \<open>\<^verbatim>\<open>COUNT(if((cond), 1, NULL))\<close> counts the rows whose condition is TRUE.\<close>

definition count_if :: "('a \<Rightarrow> sqlbool) \<Rightarrow> 'a list \<Rightarrow> nat" where
  "count_if c rows = length (filter (\<lambda>r. sql_true (c r)) rows)"

definition bitlocker_summary_counts :: "int \<Rightarrow> bitlocker_cols list \<Rightarrow> MDMWindowsBitLockerSummary" where
  "bitlocker_summary_counts now rows =
     \<lparr> sum_Verified = count_if (whereBitLockerStatus DiskEncryptionVerified now) rows,
       sum_Verifying = count_if (whereBitLockerStatus DiskEncryptionVerifying now) rows,
       sum_ActionRequired = 0,
       sum_Enforcing = count_if (whereBitLockerStatus DiskEncryptionEnforcing now) rows,
       sum_Failed = count_if (whereBitLockerStatus DiskEncryptionFailed now) rows,
       sum_RemovingEnforcement = 0 \<rparr>"

definition GetMDMWindowsBitLockerSummary ::
  "(nat option \<Rightarrow> error + bool) \<Rightarrow> int \<Rightarrow>
   hosts_row list \<Rightarrow> host_mdm_row list \<Rightarrow> hdek_row list \<Rightarrow> host_disks_row list \<Rightarrow>
   nat option \<Rightarrow> error + MDMWindowsBitLockerSummary" where
  "GetMDMWindowsBitLockerSummary getConfigEnableDiskEncryption now hs hmdm hdek hds teamID =
     (case getConfigEnableDiskEncryption teamID of
        Inl e \<Rightarrow> Inl e
      | Inr enabled \<Rightarrow>
          if \<not> enabled then
            Inr \<lparr> sum_Verified = 0, sum_Verifying = 0, sum_ActionRequired = 0,
                  sum_Enforcing = 0, sum_Failed = 0, sum_RemovingEnforcement = 0 \<rparr>
          else Inr (bitlocker_summary_counts now
                      (bitlocker_summary_rows hs hmdm hdek hds teamID)))"

section \<open>Profile delivery status of a host\<close>

text \<open>
  Modelled from the spec: the delivery statuses (Failed, Pending, Verifying, Verified)
  and operation types (install, remove) are string constants of package fleet, which is
  not part of the file; \<^verbatim>\<open>GetMDMWindowsProfilesSummary\<close> reads the statuses back under
  these spellings.
\<close>

definition MDMDeliveryFailed :: string where "MDMDeliveryFailed = ''failed''"
definition MDMDeliveryPending :: string where "MDMDeliveryPending = ''pending''"
definition MDMDeliveryVerifying :: string where "MDMDeliveryVerifying = ''verifying''"
definition MDMDeliveryVerified :: string where "MDMDeliveryVerified = ''verified''"

definition MDMOperationTypeInstall :: string where "MDMOperationTypeInstall = ''install''"
definition MDMOperationTypeRemove :: string where "MDMOperationTypeRemove = ''remove''"

text \<open>
  \<^verbatim>\<open>host_mdm_windows_profiles\<close>, keyed by (host_uuid, profile_uuid). A NULL status is
  a row that has not been dispatched.
\<close>

record hmwp_row =
  hmwp_host_uuid :: string
  hmwp_profile_uuid :: string
  hmwp_status :: "string option"
  hmwp_operation_type :: "string option"
  hmwp_detail :: "string option"
  hmwp_command_uuid :: string
  hmwp_profile_name :: string







section \<open>\<^verbatim>\<open>getMDMWindowsStatusCountsProfilesAndBitLockerDB\<close>\<close>





definition inner_join :: "'a list \<Rightarrow> ('a \<Rightarrow> 'b list) \<Rightarrow> ('a \<times> 'b) list" where
  "inner_join xs matches = concat (map (\<lambda>x. map (\<lambda>y. (x, y)) (matches x)) xs)"





section \<open>Profile reconciliation\<close>

record mwcp_row =
  mwcp_profile_uuid :: string
  mwcp_team_id :: nat
  mwcp_name :: string
  mwcp_syncml :: string

text \<open>
  \<^verbatim>\<open>mdm_windows_enrollments\<close>: the identifying columns; the descriptive columns
  (device state, type, name, enrollment versions) take no part in any statement below.
\<close>

record mwe_row =
  mwe_id :: nat
  mwe_mdm_device_id :: string
  mwe_mdm_hardware_id :: string
  mwe_host_uuid :: string

record MDMWindowsProfilePayload =
  pp_ProfileUUID :: string
  pp_ProfileName :: string
  pp_HostUUID :: string
  pp_Status :: "string option"
  pp_OperationType :: string
  pp_Detail :: string
  pp_CommandUUID :: string

text \<open>
  \<^verbatim>\<open>h.team_id = mwcp.team_id OR (h.team_id IS NULL AND mwcp.team_id = 0)\<close>
\<close>

definition team_join :: "hosts_row \<Rightarrow> mwcp_row \<Rightarrow> sqlbool" where
  "team_join h p =
     sql_or (sql_eq (h_team_id h) (mwcp_team_id p))
            (sql_and (is_null (h_team_id h)) (Some (mwcp_team_id p = 0)))"

text \<open>
  The desired state, the derived table \<^verbatim>\<open>ds\<close> of both statements:
  \<^verbatim>\<open>FROM mdm_windows_configuration_profiles mwcp JOIN hosts h ON <team_join>
   JOIN mdm_windows_enrollments mwe ON mwe.host_uuid = h.uuid
   WHERE h.platform = 'windows' AND (<host filter>)\<close>.
\<close>

definition desired_state ::
  "mwcp_row list \<Rightarrow> hosts_row list \<Rightarrow> mwe_row list \<Rightarrow> (hosts_row \<Rightarrow> sqlbool) \<Rightarrow>
   ((mwcp_row \<times> hosts_row) \<times> mwe_row) list" where
  "desired_state mwcps hs mwes hostFilter =
     filter (\<lambda>((p, h), e). sql_true (sql_and (Some (h_platform h = ''windows'')) (hostFilter h)))
       (inner_join
          (inner_join mwcps (\<lambda>p. filter (\<lambda>h. sql_true (team_join h p)) hs))
          (\<lambda>(p, h). filter (\<lambda>e. mwe_host_uuid e = h_uuid h) mwes))"

text \<open>The host filter: \<^verbatim>\<open>TRUE\<close>, or \<^verbatim>\<open><column> IN (?)\<close> when host uuids are given.\<close>

definition host_in :: "string list \<Rightarrow> string \<Rightarrow> sqlbool" where
  "host_in hostUUIDs u = (if length hostUUIDs > 0 then Some (u \<in> set hostUUIDs) else Some True)"

definition listMDMWindowsProfilesToInstallDB ::
  "mwcp_row list \<Rightarrow> hosts_row list \<Rightarrow> mwe_row list \<Rightarrow> hmwp_row list \<Rightarrow> string list \<Rightarrow>
   MDMWindowsProfilePayload list" where
  "listMDMWindowsProfilesToInstallDB mwcps hs mwes hmwps hostUUIDs =
     map (\<lambda>(((p, h), e), m).
            \<lparr> pp_ProfileUUID = mwcp_profile_uuid p, pp_ProfileName = mwcp_name p,
              pp_HostUUID = h_uuid h, pp_Status = None, pp_OperationType = [],
              pp_Detail = [], pp_CommandUUID = [] \<rparr>)
       (filter (\<lambda>(((p, h), e), m).
            sql_true (sql_or
              (sql_and (is_null (map_option hmwp_profile_uuid m))
                       (is_null (map_option hmwp_host_uuid m)))
              (sql_and (sql_and
                 (is_not_null (map_option hmwp_host_uuid m))
                 (sql_eq (Option.bind m hmwp_operation_type) MDMOperationTypeInstall))
                 (is_null (Option.bind m hmwp_status)))))
          (left_join
             (desired_state mwcps hs mwes (\<lambda>h. host_in hostUUIDs (h_uuid h)))
             (\<lambda>((p, h), e). filter (\<lambda>m. hmwp_profile_uuid m = mwcp_profile_uuid p
                                        \<and> hmwp_host_uuid m = h_uuid h) hmwps)))"

text \<open>
  \<^verbatim>\<open>listMDMWindowsProfilesToRemoveDB\<close>: \<^verbatim>\<open>ds RIGHT JOIN host_mdm_windows_profiles hmwp\<close>
  keeps every row of \<^verbatim>\<open>hmwp\<close>. The selected \<^verbatim>\<open>operation_type\<close> is scanned into a
  string field, which fails on NULL; \<^verbatim>\<open>status\<close> is scanned into a pointer.
\<close>

definition profiles_to_remove_rows ::
  "mwcp_row list \<Rightarrow> hosts_row list \<Rightarrow> mwe_row list \<Rightarrow> hmwp_row list \<Rightarrow> string list \<Rightarrow>
   hmwp_row list" where
  "profiles_to_remove_rows mwcps hs mwes hmwps hostUUIDs =
     map fst
       (filter (\<lambda>(m, d).
            sql_true (sql_and (sql_and
              (is_null (map_option (\<lambda>((p, h), e). mwcp_profile_uuid p) d))
              (is_null (map_option (\<lambda>((p, h), e). h_uuid h) d)))
              (host_in hostUUIDs (hmwp_host_uuid m))))
          (left_join hmwps
             (\<lambda>m. filter (\<lambda>((p, h), e). hmwp_profile_uuid m = mwcp_profile_uuid p
                                      \<and> hmwp_host_uuid m = h_uuid h)
                     (desired_state mwcps hs mwes (\<lambda>h. Some True)))))"

definition listMDMWindowsProfilesToRemoveDB ::
  "mwcp_row list \<Rightarrow> hosts_row list \<Rightarrow> mwe_row list \<Rightarrow> hmwp_row list \<Rightarrow> string list \<Rightarrow>
   error + MDMWindowsProfilePayload list" where
  "listMDMWindowsProfilesToRemoveDB mwcps hs mwes hmwps hostUUIDs =
     (let rows = profiles_to_remove_rows mwcps hs mwes hmwps hostUUIDs in
      if list_ex (\<lambda>m. hmwp_operation_type m = None) rows then Inl ScanNull
      else Inr (map (\<lambda>m.
             \<lparr> pp_ProfileUUID = hmwp_profile_uuid m, pp_ProfileName = [],
               pp_HostUUID = hmwp_host_uuid m, pp_Status = hmwp_status m,
               pp_OperationType = (case hmwp_operation_type m of None \<Rightarrow> [] | Some t \<Rightarrow> t),
               pp_Detail = (case hmwp_detail m of None \<Rightarrow> [] | Some d \<Rightarrow> d),
               pp_CommandUUID = hmwp_command_uuid m \<rparr>) rows))"

text \<open>
  The (host, profile) pairs of the desired state \<^verbatim>\<open>ds\<close>, of the rows of
  \<^verbatim>\<open>host_mdm_windows_profiles\<close> and of a list of payloads, each under the host filter.
\<close>

definition desired_pairs ::
  "mwcp_row list \<Rightarrow> hosts_row list \<Rightarrow> mwe_row list \<Rightarrow> string list \<Rightarrow> (string \<times> string) set" where
  "desired_pairs mwcps hs mwes hostUUIDs =
     set (map (\<lambda>((p, h), e). (h_uuid h, mwcp_profile_uuid p))
            (desired_state mwcps hs mwes (\<lambda>h. host_in hostUUIDs (h_uuid h))))"

definition actual_pairs :: "hmwp_row list \<Rightarrow> string list \<Rightarrow> (string \<times> string) set" where
  "actual_pairs hmwps hostUUIDs =
     set (map (\<lambda>m. (hmwp_host_uuid m, hmwp_profile_uuid m))
            (filter (\<lambda>m. sql_true (host_in hostUUIDs (hmwp_host_uuid m))) hmwps))"

definition payload_pairs :: "MDMWindowsProfilePayload list \<Rightarrow> (string \<times> string) set" where
  "payload_pairs ps = set (map (\<lambda>p. (pp_HostUUID p, pp_ProfileUUID p)) ps)"

text \<open>
  The batching loop shared by the bulk statements: rows are appended to the current
  batch, the batch is executed when it reaches \<open>batchSize\<close>, and what is left is executed
  after the loop.
\<close>

fun run_batches :: "nat \<Rightarrow> ('a list \<Rightarrow> 's \<Rightarrow> 's) \<Rightarrow> 'a list \<Rightarrow> 'a list \<Rightarrow> 's \<Rightarrow> 's" where
  "run_batches batchSize exec batch [] s = (if length batch > 0 then exec batch s else s)"
| "run_batches batchSize exec batch (p # ps) s =
     (if length (batch @ [p]) \<ge> batchSize
      then run_batches batchSize exec [] ps (exec (batch @ [p]) s)
      else run_batches batchSize exec (batch @ [p]) ps s)"

text \<open>\<open>defaultBatchSize\<close>, or the datastore's test override when it is positive.\<close>

definition batch_size :: "int \<Rightarrow> nat" where
  "batch_size testBatchSize = (if testBatchSize > 0 then nat testBatchSize else 1000)"

text \<open>
  \<^verbatim>\<open>DELETE FROM host_mdm_windows_profiles WHERE (profile_uuid, host_uuid) IN (...)\<close>
\<close>

definition executeDeleteBatch :: "MDMWindowsProfilePayload list \<Rightarrow> hmwp_row list \<Rightarrow> hmwp_row list" where
  "executeDeleteBatch batch hmwps =
     filter (\<lambda>r. (hmwp_profile_uuid r, hmwp_host_uuid r)
                   \<notin> set (map (\<lambda>p. (pp_ProfileUUID p, pp_HostUUID p)) batch)) hmwps"

definition bulkDeleteMDMWindowsHostsConfigProfilesDB ::
  "int \<Rightarrow> MDMWindowsProfilePayload list \<Rightarrow> hmwp_row list \<Rightarrow> hmwp_row list" where
  "bulkDeleteMDMWindowsHostsConfigProfilesDB testDeleteMDMProfilesBatchSize profs hmwps =
     (if length profs = 0 then hmwps
      else run_batches (batch_size testDeleteMDMProfilesBatchSize) executeDeleteBatch [] profs hmwps)"

text \<open>
  One row of the \<^verbatim>\<open>INSERT ... VALUES (?, ?, ?, ?, NULL, '') ON DUPLICATE KEY UPDATE
  operation_type = VALUES(operation_type), status = NULL, command_uuid = VALUES(command_uuid),
  detail = ''\<close> of \<^verbatim>\<open>bulkSetPendingMDMWindowsHostProfilesDB\<close>. The statement does not
  insert \<^verbatim>\<open>detail\<close>: a new row takes the column's default \<open>detail_default\<close>, which
  the schema (not part of the file) fixes.
\<close>

definition same_key :: "MDMWindowsProfilePayload \<Rightarrow> hmwp_row \<Rightarrow> bool" where
  "same_key p r = (hmwp_host_uuid r = pp_HostUUID p \<and> hmwp_profile_uuid r = pp_ProfileUUID p)"

definition upsert_pending_row ::
  "string option \<Rightarrow> MDMWindowsProfilePayload \<Rightarrow> hmwp_row list \<Rightarrow> hmwp_row list" where
  "upsert_pending_row detail_default p hmwps =
     (if list_ex (same_key p) hmwps
      then map (\<lambda>r. if same_key p r
                     then r\<lparr> hmwp_operation_type := Some MDMOperationTypeInstall,
                             hmwp_status := None,
                             hmwp_command_uuid := [],
                             hmwp_detail := Some [] \<rparr>
                     else r) hmwps
      else hmwps @
        [\<lparr> hmwp_host_uuid = pp_HostUUID p, hmwp_profile_uuid = pp_ProfileUUID p,
           hmwp_status = None, hmwp_operation_type = Some MDMOperationTypeInstall,
           hmwp_detail = detail_default, hmwp_command_uuid = [],
           hmwp_profile_name = pp_ProfileName p \<rparr>])"

definition executeUpsertBatch ::
  "string option \<Rightarrow> MDMWindowsProfilePayload list \<Rightarrow> hmwp_row list \<Rightarrow> hmwp_row list" where
  "executeUpsertBatch detail_default batch hmwps = fold (upsert_pending_row detail_default) batch hmwps"

definition bulkSetPendingMDMWindowsHostProfilesDB ::
  "string option \<Rightarrow> int \<Rightarrow> int \<Rightarrow> mwcp_row list \<Rightarrow> hosts_row list \<Rightarrow> mwe_row list \<Rightarrow>
   string list \<Rightarrow> hmwp_row list \<Rightarrow> error + hmwp_row list" where
  "bulkSetPendingMDMWindowsHostProfilesDB detail_default testDeleteMDMProfilesBatchSize
       testUpsertMDMDesiredProfilesBatchSize mwcps hs mwes uuids hmwps =
     (if length uuids = 0 then Inr hmwps
      else
        let profilesToInstall = listMDMWindowsProfilesToInstallDB mwcps hs mwes hmwps uuids in
        case listMDMWindowsProfilesToRemoveDB mwcps hs mwes hmwps uuids of
          Inl e \<Rightarrow> Inl e
        | Inr profilesToRemove \<Rightarrow>
            if length profilesToInstall = 0 \<and> length profilesToRemove = 0 then Inr hmwps
            else Inr (run_batches (batch_size testUpsertMDMDesiredProfilesBatchSize)
                        (executeUpsertBatch detail_default) [] profilesToInstall
                        (bulkDeleteMDMWindowsHostsConfigProfilesDB testDeleteMDMProfilesBatchSize
                           profilesToRemove hmwps)))"

section \<open>Commands, responses and the database state\<close>

record MDMWindowsCommand =
  CommandUUID :: string
  RawCommand :: string
  TargetLocURI :: string

record queue_row =
  q_enrollment_id :: nat
  q_command_uuid :: string

record response_row =
  resp_id :: nat
  resp_enrollment_id :: nat
  raw_response :: string

record result_row =
  res_enrollment_id :: nat
  res_command_uuid :: string
  raw_result :: "string option"
  response_id :: nat
  status_code :: "string option"

record macp_row =
  macp_name :: string
  macp_team_id :: nat

text \<open>
  The tables the write paths touch. \<open>windows_mdm_responses_auto_increment\<close> is the id
  the next inserted response row receives (\<^verbatim>\<open>LastInsertId\<close>).
\<close>

record db =
  mdm_windows_enrollments :: "mwe_row list"
  windows_mdm_commands :: "MDMWindowsCommand list"
  windows_mdm_command_queue :: "queue_row list"
  windows_mdm_responses :: "response_row list"
  windows_mdm_responses_auto_increment :: nat
  windows_mdm_command_results :: "result_row list"
  host_mdm_windows_profiles :: "hmwp_row list"
  mdm_windows_configuration_profiles :: "mwcp_row list"
  mdm_apple_configuration_profiles :: "macp_row list"

text \<open>
  A parsed protocol operation of a device response. \<open>op_Verb\<close> is the element name;
  \<open>CmdRef\<close>, \<open>Cmd\<close> and \<open>Data\<close> are pointers in the source, \<open>None\<close> when nil.
\<close>

record SyncMLCmd =
  CmdID :: string
  CmdRef :: "string option"
  Cmd :: "string option"
  Data :: "string option"

record ProtoCmdOperation =
  op_Verb :: string
  op_Cmd :: SyncMLCmd

text \<open>
  The response: its raw bytes and the result of \<^verbatim>\<open>GetOrderedCmds()\<close>, the operations in
  protocol order.
\<close>

record SyncML =
  Raw :: string
  OrderedCmds :: "ProtoCmdOperation list"

text \<open>
  Modelled from the spec: the verbs (Status, Results) and the command class of an atomic
  configuration change are string constants of package fleet, which is not part of the
  file.
\<close>

definition CmdStatus :: string where "CmdStatus = ''Status''"
definition CmdResults :: string where "CmdResults = ''Results''"
definition CmdAtomic :: string where "CmdAtomic = ''Atomic''"

text \<open>
  The functions of other packages that \<^verbatim>\<open>MDMWindowsSaveResponse\<close> calls, as parameters:
  \<^verbatim>\<open>SyncMLCmd.ShouldBeTracked\<close>, \<^verbatim>\<open>fleet.BuildMDMWindowsProfilePayloadFromMDMResponse\<close>
  and \<^verbatim>\<open>xml.Marshal\<close> (\<open>None\<close> when it fails: the error is logged and the nil slice is
  bound, which the driver sends as NULL).
\<close>

record collaborators =
  ShouldBeTracked :: "SyncMLCmd \<Rightarrow> string \<Rightarrow> bool"
  BuildMDMWindowsProfilePayloadFromMDMResponse ::
    "MDMWindowsCommand \<Rightarrow> (string \<Rightarrow> SyncMLCmd option) \<Rightarrow> string \<Rightarrow> error + MDMWindowsProfilePayload"
  xml_Marshal :: "SyncMLCmd \<Rightarrow> string option"

section \<open>\<^verbatim>\<open>MDMWindowsGetEnrolledDeviceWithDeviceID\<close>\<close>

definition MDMWindowsGetEnrolledDeviceWithDeviceID :: "mwe_row list \<Rightarrow> string \<Rightarrow> error + mwe_row" where
  "MDMWindowsGetEnrolledDeviceWithDeviceID mwes mdmDeviceID =
     (case filter (\<lambda>e. mwe_mdm_device_id e = mdmDeviceID) mwes of
        [] \<Rightarrow> Inl (NotFound mdmDeviceID)
      | e # es \<Rightarrow> Inr e)"

section \<open>\<^verbatim>\<open>updateMDMWindowsHostProfileStatusFromResponseDB\<close>\<close>

text \<open>
  \<open>uuidsToPayloads\<close>: a later payload with the same command uuid replaces an earlier one.
\<close>

fun uuidsToPayloads ::
  "MDMWindowsProfilePayload list \<Rightarrow> (string \<Rightarrow> MDMWindowsProfilePayload option) \<Rightarrow>
   (string \<Rightarrow> MDMWindowsProfilePayload option)" where
  "uuidsToPayloads [] m = m"
| "uuidsToPayloads (p # ps) m = uuidsToPayloads ps (m(pp_CommandUUID p \<mapsto> p))"

text \<open>
  One row of \<^verbatim>\<open>INSERT INTO host_mdm_windows_profiles (host_uuid, profile_uuid, detail, status,
  command_uuid) VALUES (?, ?, ?, ?, command_uuid) ON DUPLICATE KEY UPDATE detail = VALUES(detail),
  status = VALUES(status)\<close>. A row whose key is absent would be inserted with the other
  columns at their defaults.
\<close>

definition upsert_status_row ::
  "string \<Rightarrow> string \<Rightarrow> string \<Rightarrow> string option \<Rightarrow> hmwp_row list \<Rightarrow> hmwp_row list" where
  "upsert_status_row host profile detail st hmwps =
     (if list_ex (\<lambda>r. hmwp_host_uuid r = host \<and> hmwp_profile_uuid r = profile) hmwps
      then map (\<lambda>r. if hmwp_host_uuid r = host \<and> hmwp_profile_uuid r = profile
                     then r\<lparr> hmwp_detail := Some detail, hmwp_status := st \<rparr>
                     else r) hmwps
      else hmwps @
        [\<lparr> hmwp_host_uuid = host, hmwp_profile_uuid = profile, hmwp_status = st,
           hmwp_operation_type = None, hmwp_detail = Some detail, hmwp_command_uuid = [],
           hmwp_profile_name = [] \<rparr>])"

text \<open>
  The loop over the matching rows: \<open>uuidsToPayloads[hp.CommandUUID]\<close> is nil for a
  command uuid that no payload carries, and reading \<open>payload.Detail\<close> then panics.
\<close>

fun status_rows ::
  "(string \<Rightarrow> MDMWindowsProfilePayload option) \<Rightarrow> hmwp_row list \<Rightarrow>
   error + (string \<times> string \<times> string \<times> string option) list" where
  "status_rows m [] = Inr []"
| "status_rows m (hp # hps) =
     (case m (hmwp_command_uuid hp) of
        None \<Rightarrow> Inl Panic
      | Some payload \<Rightarrow>
          (case status_rows m hps of
             Inl e \<Rightarrow> Inl e
           | Inr rows \<Rightarrow>
               Inr ((hmwp_host_uuid hp, hmwp_profile_uuid hp, pp_Detail payload, pp_Status payload)
                    # rows)))"

text \<open>
  \<open>commandUUIDs\<close> is made with \<open>len(payloads)\<close> empty strings and then appended to. With
  no matching row the VALUES list of the statement is empty and the statement is
  rejected.
\<close>

definition updateMDMWindowsHostProfileStatusFromResponseDB ::
  "MDMWindowsProfilePayload list \<Rightarrow> hmwp_row list \<Rightarrow> error + hmwp_row list" where
  "updateMDMWindowsHostProfileStatusFromResponseDB payloads hmwps =
     (case payloads of
        [] \<Rightarrow> Inr hmwps
      | p0 # _ \<Rightarrow>
          let hostUUID = pp_HostUUID p0 in
          if list_ex (\<lambda>payload. pp_HostUUID payload \<noteq> hostUUID) payloads
          then Inl PayloadHostMismatch
          else
            let commandUUIDs = replicate (length payloads) [] @ map pp_CommandUUID payloads;
                matchingHostProfiles =
                  filter (\<lambda>r. hmwp_host_uuid r = hostUUID
                               \<and> hmwp_command_uuid r \<in> set commandUUIDs) hmwps
            in case status_rows (uuidsToPayloads payloads Map.empty) matchingHostProfiles of
                 Inl e \<Rightarrow> Inl e
               | Inr rows \<Rightarrow>
                   if rows = [] then Inl SQLSyntax
                   else Inr (fold (\<lambda>(h, p, d, s). upsert_status_row h p d s) rows hmwps))"

section \<open>\<^verbatim>\<open>MDMWindowsSaveResponse\<close>\<close>

text \<open>
  The first loop of the transaction: the tracked operations that carry a command
  reference, by verb. The state is \<open>(cmdUUIDs, uuidsToStatus, uuidsToResults)\<close>.
\<close>

fun incoming_uuids ::
  "(SyncMLCmd \<Rightarrow> string \<Rightarrow> bool) \<Rightarrow> ProtoCmdOperation list \<Rightarrow>
   string list \<times> (string \<Rightarrow> SyncMLCmd option) \<times> (string \<Rightarrow> SyncMLCmd option) \<Rightarrow>
   string list \<times> (string \<Rightarrow> SyncMLCmd option) \<times> (string \<Rightarrow> SyncMLCmd option)" where
  "incoming_uuids tracked [] acc = acc"
| "incoming_uuids tracked (protoOp # ops) (cmdUUIDs, uuidsToStatus, uuidsToResults) =
     (case CmdRef (op_Cmd protoOp) of
        None \<Rightarrow> incoming_uuids tracked ops (cmdUUIDs, uuidsToStatus, uuidsToResults)
      | Some cmdRef \<Rightarrow>
          if \<not> tracked (op_Cmd protoOp) (op_Verb protoOp)
          then incoming_uuids tracked ops (cmdUUIDs, uuidsToStatus, uuidsToResults)
          else if op_Verb protoOp = CmdStatus
          then incoming_uuids tracked ops
                 (cmdUUIDs @ [cmdRef], uuidsToStatus(cmdRef \<mapsto> op_Cmd protoOp), uuidsToResults)
          else if op_Verb protoOp = CmdResults
          then incoming_uuids tracked ops
                 (cmdUUIDs @ [cmdRef], uuidsToStatus, uuidsToResults(cmdRef \<mapsto> op_Cmd protoOp))
          else incoming_uuids tracked ops (cmdUUIDs, uuidsToStatus, uuidsToResults))"

text \<open>
  The second loop, over the matching commands: the row
  \<open>(enrollment.ID, cmd.CommandUUID, rawResult, responseID, statusCode)\<close> of each, and the
  potential profile payloads. \<open>statusCode\<close> starts as the empty string and \<open>rawResult\<close> as
  the empty, non-nil byte slice; both are bound as such, not as NULL.
\<close>

fun result_args ::
  "collaborators \<Rightarrow> mwe_row \<Rightarrow> nat \<Rightarrow>
   (string \<Rightarrow> SyncMLCmd option) \<Rightarrow> (string \<Rightarrow> SyncMLCmd option) \<Rightarrow>
   MDMWindowsCommand list \<Rightarrow> error + (result_row list \<times> MDMWindowsProfilePayload list)" where
  "result_args c enrollment responseID uuidsToStatus uuidsToResults [] = Inr ([], [])"
| "result_args c enrollment responseID uuidsToStatus uuidsToResults (cmd # cmds) =
     (let st = (case uuidsToStatus (CommandUUID cmd) of
                  None \<Rightarrow> Inr ([], [])
                | Some status \<Rightarrow>
                    (case Data status of
                       None \<Rightarrow> Inr ([], [])
                     | Some d \<Rightarrow>
                         if Cmd status = Some CmdAtomic
                         then (case BuildMDMWindowsProfilePayloadFromMDMResponse c cmd uuidsToStatus
                                      (mwe_host_uuid enrollment) of
                                 Inl e \<Rightarrow> Inl e
                               | Inr pp \<Rightarrow> Inr (d, [pp]))
                         else Inr (d, [])));
          rawResult = (case uuidsToResults (CommandUUID cmd) of
                         None \<Rightarrow> Some []
                       | Some result \<Rightarrow>
                           (case Data result of None \<Rightarrow> Some [] | Some d \<Rightarrow> xml_Marshal c result))
      in case st of
           Inl e \<Rightarrow> Inl e
         | Inr (statusCode, pps) \<Rightarrow>
             (case result_args c enrollment responseID uuidsToStatus uuidsToResults cmds of
                Inl e \<Rightarrow> Inl e
              | Inr (rows, payloads) \<Rightarrow>
                  Inr (\<lparr> res_enrollment_id = mwe_id enrollment,
                          res_command_uuid = CommandUUID cmd,
                          raw_result = rawResult,
                          response_id = responseID,
                          status_code = Some statusCode \<rparr> # rows,
                       pps @ payloads)))"

text \<open>
  One row of \<^verbatim>\<open>INSERT INTO windows_mdm_command_results (enrollment_id, command_uuid, raw_result,
  response_id, status_code) VALUES ... ON DUPLICATE KEY UPDATE
  raw_result = COALESCE(VALUES(raw_result), raw_result),
  status_code = COALESCE(VALUES(status_code), status_code)\<close>; the key is
  (enrollment_id, command_uuid).
\<close>

definition same_result_key :: "result_row \<Rightarrow> result_row \<Rightarrow> bool" where
  "same_result_key new r =
     (res_enrollment_id r = res_enrollment_id new \<and> res_command_uuid r = res_command_uuid new)"

definition upsert_result :: "result_row \<Rightarrow> result_row list \<Rightarrow> result_row list" where
  "upsert_result new results =
     (if list_ex (same_result_key new) results
      then map (\<lambda>r. if same_result_key new r
                     then r\<lparr> raw_result := coalesce (raw_result new) (raw_result r),
                             status_code := coalesce (status_code new) (status_code r) \<rparr>
                     else r) results
      else results @ [new])"

text \<open>
  The function passed to \<open>withRetryTxx\<close>, on the database state \<open>d\<close> the transaction
  sees. \<open>enrollment\<close> is the closure's captured variable.
\<close>

definition saveResponseTx :: "collaborators \<Rightarrow> mwe_row \<Rightarrow> SyncML \<Rightarrow> db \<Rightarrow> error + db" where
  "saveResponseTx c enrollment fullResponse d =
     (case incoming_uuids (ShouldBeTracked c) (OrderedCmds fullResponse) ([], Map.empty, Map.empty) of
        (cmdUUIDs, uuidsToStatus, uuidsToResults) \<Rightarrow>
          if length cmdUUIDs = 0 then Inr d
          else
            let responseID = windows_mdm_responses_auto_increment d;
                d1 = d\<lparr> windows_mdm_responses :=
                          windows_mdm_responses d @
                            [\<lparr> resp_id = responseID, resp_enrollment_id = mwe_id enrollment,
                               raw_response = Raw fullResponse \<rparr>],
                        windows_mdm_responses_auto_increment := Suc responseID \<rparr>;
                matchingCmds = filter (\<lambda>cmd. CommandUUID cmd \<in> set cmdUUIDs) (windows_mdm_commands d1)
            in if length matchingCmds = 0 then Inr d1
               else
                 (case result_args c enrollment responseID uuidsToStatus uuidsToResults matchingCmds of
                    Inl e \<Rightarrow> Inl e
                  | Inr (args, potentialProfilePayloads) \<Rightarrow>
                      (case updateMDMWindowsHostProfileStatusFromResponseDB potentialProfilePayloads
                              (host_mdm_windows_profiles d1) of
                         Inl e \<Rightarrow> Inl e
                       | Inr hmwps \<Rightarrow>
                           Inr (d1\<lparr> host_mdm_windows_profiles := hmwps,
                                    windows_mdm_command_results :=
                                      fold upsert_result args (windows_mdm_command_results d1),
                                    windows_mdm_command_queue :=
                                      filter (\<lambda>q. q_command_uuid q
                                                    \<notin> set (map CommandUUID matchingCmds))
                                        (windows_mdm_command_queue d1) \<rparr>))))"

text \<open>
  Modelled from the spec: \<open>withRetryTxx\<close> is defined in another file of the package.
  The spec has it run the given function in a transaction that is retried on a
  transient conflict and on no other failure; a failing step aborts the whole call and
  leaves the database as it was. Each attempt is given by the database state it sees
  (other writers may have committed in between) and by whether the storage engine
  reports a transient conflict for it; the list of attempts is the retry bound. The
  result is the committed state, or the error with nothing written.
\<close>

record attempt =
  seen :: db
  conflict :: bool

fun withRetryTxx :: "(db \<Rightarrow> error + db) \<Rightarrow> attempt list \<Rightarrow> error + db" where
  "withRetryTxx fn [] = Inl RetriesExhausted"
| "withRetryTxx fn (a # as) = (if conflict a then withRetryTxx fn as else fn (seen a))"

text \<open>
  \<^verbatim>\<open>MDMWindowsSaveResponse\<close>. \<open>reader\<close> is the enrollments table as the reader connection
  shows it when the function is entered.
\<close>

definition MDMWindowsSaveResponse ::
  "collaborators \<Rightarrow> mwe_row list \<Rightarrow> attempt list \<Rightarrow> string \<Rightarrow> SyncML \<Rightarrow> error + db" where
  "MDMWindowsSaveResponse c reader attempts deviceID fullResponse =
     (if length (Raw fullResponse) = 0 then Inl EmptyRawResponse
      else (case MDMWindowsGetEnrolledDeviceWithDeviceID reader deviceID of
              Inl e \<Rightarrow> Inl e
            | Inr enrollment \<Rightarrow> withRetryTxx (saveResponseTx c enrollment fullResponse) attempts))"

section \<open>\<^verbatim>\<open>NewMDMWindowsConfigProfile\<close>\<close>

record MDMWindowsConfigProfile =
  cp_ProfileUUID :: string
  cp_TeamID :: "nat option"
  cp_Name :: string
  cp_SyncML :: string

text \<open>
  \<open>profileUUID\<close> is the value of \<^verbatim>\<open>uuid.New().String()\<close>. The statement selects the new
  row from DUAL unless an Apple profile has the name and team, so that zero rows are
  affected then. Modelled from the spec: the unique keys of
  \<^verbatim>\<open>mdm_windows_configuration_profiles\<close> are declared in the schema, which is not part of
  the file; the spec gives the profile identifier as unique and the name as unique within
  a team. A violated key is the driver's duplicate-entry error. The function returns its
  result and the database after the call.
\<close>

definition NewMDMWindowsConfigProfile ::
  "string \<Rightarrow> MDMWindowsConfigProfile \<Rightarrow> db \<Rightarrow> (error + MDMWindowsConfigProfile) \<times> db" where
  "NewMDMWindowsConfigProfile profileUUID cp d =
     (let teamID = (case cp_TeamID cp of None \<Rightarrow> 0 | Some t \<Rightarrow> t);
          existsError = ExistsError ''MDMWindowsConfigProfile.Name'' (cp_Name cp) (cp_TeamID cp)
      in if list_ex (\<lambda>a. macp_name a = cp_Name cp \<and> macp_team_id a = teamID)
                    (mdm_apple_configuration_profiles d)
         then (Inl existsError, d)
         else if list_ex (\<lambda>w. mwcp_profile_uuid w = profileUUID
                              \<or> (mwcp_team_id w = teamID \<and> mwcp_name w = cp_Name cp))
                         (mdm_windows_configuration_profiles d)
         then (Inl existsError, d)
         else (Inr \<lparr> cp_ProfileUUID = profileUUID, cp_TeamID = cp_TeamID cp,
                     cp_Name = cp_Name cp, cp_SyncML = cp_SyncML cp \<rparr>,
               d\<lparr> mdm_windows_configuration_profiles :=
                    mdm_windows_configuration_profiles d @
                      [\<lparr> mwcp_profile_uuid = profileUUID, mwcp_team_id = teamID,
                         mwcp_name = cp_Name cp, mwcp_syncml = cp_SyncML cp \<rparr>] \<rparr>))"

section \<open>Rows reset for dispatch\<close>

text \<open>
  The state in which \<^verbatim>\<open>bulkSetPendingMDMWindowsHostProfilesDB\<close> leaves a row of its
  install set: operation install, status NULL, no command, and as detail either the
  column default (a row just inserted) or the empty string (a row updated).
\<close>

definition reset_for_dispatch :: "string option \<Rightarrow> hmwp_row \<Rightarrow> bool" where
  "reset_for_dispatch detail_default r =
     (hmwp_operation_type r = Some MDMOperationTypeInstall \<and> hmwp_status r = None
      \<and> hmwp_command_uuid r = []
      \<and> (hmwp_detail r = detail_default \<or> hmwp_detail r = Some []))"

section \<open>Two-valued readings of the conditions\<close>

lemmas sql_defs = sql_true_def sql_not_def sql_and_def sql_or_def is_null_def is_not_null_def
  sql_eq_def sql_ne_def sql_ge_def

lemma sql_and_Some: "sql_and (Some a) (Some b) = Some (a \<and> b)"
  by (simp add: sql_and_def)

lemma sql_or_Some: "sql_or (Some a) (Some b) = Some (a \<or> b)"
  by (simp add: sql_or_def)

lemma sql_not_Some: "sql_not (Some a) = Some (\<not> a)"
  by (simp add: sql_not_def)

lemma sql_true_Some: "sql_true (Some a) = a"
  by (simp add: sql_true_def)

lemma whereNotServer_eq: "whereNotServer r = Some (hmdm_is_server r = Some 0)"
  by (cases "hmdm_is_server r") (simp_all add: whereNotServer_def sql_defs)

lemma whereKeyAvailable_eq:
  "whereKeyAvailable r =
     Some ((\<exists>b. hdek_base64_encrypted r = Some b \<and> b \<noteq> []) \<and> hdek_decryptable r = Some 1)"
  by (cases "hdek_base64_encrypted r"; cases "hdek_decryptable r")
     (simp_all add: whereKeyAvailable_def sql_defs)

lemma whereEncrypted_eq: "whereEncrypted r = Some (hd_encrypted r = Some 1)"
  by (cases "hd_encrypted r") (simp_all add: whereEncrypted_def sql_defs)

lemma whereHostDisksUpdated_eq:
  "whereHostDisksUpdated r =
     Some (\<exists>a b. hd_updated_at r = Some a \<and> hdek_updated_at r = Some b \<and> b \<le> a)"
  by (cases "hd_updated_at r"; cases "hdek_updated_at r")
     (simp_all add: whereHostDisksUpdated_def sql_defs)

lemma whereClientError_eq:
  "whereClientError r = Some (\<exists>e. hdek_client_error r = Some e \<and> e \<noteq> [])"
  by (cases "hdek_client_error r") (simp_all add: whereClientError_def sql_defs)

lemma withinGracePeriod_eq:
  "withinGracePeriod now r = Some (\<exists>b. hdek_updated_at r = Some b \<and> now - 3600 \<le> b)"
  by (cases "hdek_updated_at r") (simp_all add: withinGracePeriod_def sql_defs)

lemmas where_eqs = whereNotServer_eq whereKeyAvailable_eq whereEncrypted_eq
  whereHostDisksUpdated_eq whereClientError_eq withinGracePeriod_eq
  sql_and_Some sql_or_Some sql_not_Some sql_true_Some

declare whereBitLockerStatus.simps [simp del]

lemma client_error_only_failed:
  assumes "hmdm_is_server r = Some 0" "hdek_client_error r = Some e" "e \<noteq> []"
  shows "sql_true (whereBitLockerStatus s now r) \<longleftrightarrow> s = DiskEncryptionFailed"
  using assms by (cases s) (simp_all add: whereBitLockerStatus.simps where_eqs)

lemma client_error_case:
  assumes "hmdm_is_server r = Some 0" "hdek_client_error r = Some e" "e \<noteq> []"
  shows "bitlocker_status_case now r = Some DiskEncryptionFailed"
  by (simp add: bitlocker_status_case_def client_error_only_failed[OF assms])

lemma count_if_insert:
  "count_if c (rs1 @ r # rs2) = (if sql_true (c r) then Suc (count_if c (rs1 @ rs2)) else count_if c (rs1 @ rs2))"
  by (simp add: count_if_def)

lemma client_error_counts:
  assumes "hmdm_is_server r = Some 0" "hdek_client_error r = Some e" "e \<noteq> []"
  shows "bitlocker_summary_counts now (rs1 @ r # rs2) =
         (bitlocker_summary_counts now (rs1 @ rs2))
           \<lparr> sum_Failed := Suc (sum_Failed (bitlocker_summary_counts now (rs1 @ rs2))) \<rparr>"
  by (simp add: bitlocker_summary_counts_def count_if_insert client_error_only_failed[OF assms])

text \<open>
  C8. A host that is not a server and whose client error text is not empty is classified
  Failed and nothing else, whatever its key, encrypted flag and timestamps are: the four
  conditions select Failed only, the single-host lookup
  (\<open>GetMDMWindowsBitLockerStatus\<close>, for a Windows host with disk encryption enabled)
  returns Failed with the error text as detail, and in the fleet-wide summary the host
  adds one to the failed count and to no other.
\<close>

theorem client_error_classified_failed:
  assumes "hmdm_is_server r = Some 0" and "hdek_client_error r = Some e" and "e \<noteq> []"
  shows "bitlocker_status_case now r = Some DiskEncryptionFailed
    \<and> (\<forall>s. sql_true (whereBitLockerStatus s now r) \<longleftrightarrow> s = DiskEncryptionFailed)
    \<and> (Platform h = ''windows'' \<and> (\<forall>i. MDMInfo h = Some i \<longrightarrow> \<not> IsServer i)
         \<and> cfg (TeamID h) = Inr True \<and> bitlocker_status_rows hmdm hdek hds (ID h) = r # rs
       \<longrightarrow> GetMDMWindowsBitLockerStatus cfg now hmdm hdek hds (Some h)
             = Inr (Some \<lparr> Status = Some DiskEncryptionFailed, Detail = e \<rparr>))
    \<and> (cfg teamID = Inr True \<and> bitlocker_summary_rows hs hmdm' hdek' hds' teamID = rs1 @ r # rs2
       \<longrightarrow> (\<exists>others. GetMDMWindowsBitLockerSummary cfg now hs hmdm' hdek' hds' teamID
                       = Inr (others\<lparr> sum_Failed := Suc (sum_Failed others) \<rparr>)
                   \<and> others = bitlocker_summary_counts now (rs1 @ rs2)))"
proof (intro conjI allI impI)
  show "bitlocker_status_case now r = Some DiskEncryptionFailed"
    by (rule client_error_case[OF assms])
next
  fix s show "sql_true (whereBitLockerStatus s now r) \<longleftrightarrow> s = DiskEncryptionFailed"
    by (rule client_error_only_failed[OF assms])
next
  assume h: "Platform h = ''windows'' \<and> (\<forall>i. MDMInfo h = Some i \<longrightarrow> \<not> IsServer i)
         \<and> cfg (TeamID h) = Inr True \<and> bitlocker_status_rows hmdm hdek hds (ID h) = r # rs"
  then have "\<not> (case MDMInfo h of None \<Rightarrow> False | Some i \<Rightarrow> IsServer i)"
    by (cases "MDMInfo h") simp_all
  with h show "GetMDMWindowsBitLockerStatus cfg now hmdm hdek hds (Some h)
             = Inr (Some \<lparr> Status = Some DiskEncryptionFailed, Detail = e \<rparr>)"
    by (simp add: GetMDMWindowsBitLockerStatus_def client_error_case[OF assms] assms(2))
next
  assume s: "cfg teamID = Inr True \<and> bitlocker_summary_rows hs hmdm' hdek' hds' teamID = rs1 @ r # rs2"
  then show "\<exists>others. GetMDMWindowsBitLockerSummary cfg now hs hmdm' hdek' hds' teamID
                       = Inr (others\<lparr> sum_Failed := Suc (sum_Failed others) \<rparr>)
                   \<and> others = bitlocker_summary_counts now (rs1 @ rs2)"
    by (simp add: GetMDMWindowsBitLockerSummary_def client_error_counts[OF assms])
qed

theorem client_error_classified_failed_witness:
  "GetMDMWindowsBitLockerStatus (\<lambda>t. Inr True) 500
     [\<lparr> hmdm_host_id = 1, is_server = Some 0, enrolled = Some 1, mdm_id = Some 1 \<rparr>]
     [\<lparr> hdek_host_id = 1, base64_encrypted = Some ''key'', decryptable = Some 1,
        key_updated_at = Some 100, client_error = Some ''tpm'' \<rparr>]
     [\<lparr> hd_host_id = 1, encrypted = Some 1, disk_updated_at = Some 200 \<rparr>]
     (Some \<lparr> ID = 1, Platform = ''windows'', TeamID = None,
             MDMInfo = Some \<lparr> IsServer = False \<rparr> \<rparr>)
   = Inr (Some \<lparr> Status = Some DiskEncryptionFailed, Detail = ''tpm'' \<rparr>)
   \<and> GetMDMWindowsBitLockerSummary (\<lambda>t. Inr True) 500
     [\<lparr> h_id = 1, h_uuid = ''H1'', h_platform = ''windows'', h_team_id = None \<rparr>]
     [\<lparr> hmdm_host_id = 1, is_server = Some 0, enrolled = Some 1, mdm_id = Some 1 \<rparr>]
     [\<lparr> hdek_host_id = 1, base64_encrypted = Some ''key'', decryptable = Some 1,
        key_updated_at = Some 100, client_error = Some ''tpm'' \<rparr>]
     [\<lparr> hd_host_id = 1, encrypted = Some 1, disk_updated_at = Some 200 \<rparr>]
     None
   = Inr \<lparr> sum_Verified = 0, sum_Verifying = 0, sum_ActionRequired = 0,
           sum_Enforcing = 0, sum_Failed = 1, sum_RemovingEnforcement = 0 \<rparr>"
proof -
  let ?r = "\<lparr> hmdm_is_server = Some 0, hdek_base64_encrypted = Some ''key'',
              hdek_decryptable = Some 1, hdek_updated_at = Some 100,
              hdek_client_error = Some ''tpm'', hd_encrypted = Some 1,
              hd_updated_at = Some 200 \<rparr>"
  let ?hmdm = "[\<lparr> hmdm_host_id = 1, is_server = Some 0, enrolled = Some 1, mdm_id = Some 1 \<rparr>]"
  let ?hdek = "[\<lparr> hdek_host_id = 1, base64_encrypted = Some ''key'', decryptable = Some 1,
        key_updated_at = Some 100, client_error = Some ''tpm'' \<rparr>]"
  let ?hds = "[\<lparr> hd_host_id = 1, encrypted = Some 1, disk_updated_at = Some 200 \<rparr>]"
  let ?hs = "[\<lparr> h_id = 1, h_uuid = ''H1'', h_platform = ''windows'', h_team_id = None \<rparr>]"
  have rows: "bitlocker_status_rows ?hmdm ?hdek ?hds 1 = [?r]"
    by (simp add: bitlocker_status_rows_def left_join_def bitlocker_cols_of_def)
  have srows: "bitlocker_summary_rows ?hs ?hmdm ?hdek ?hds None = [] @ ?r # []"
    by (simp add: bitlocker_summary_rows_def left_join_def bitlocker_cols_of_def
          teamFilter_def sql_defs)
  have empty: "bitlocker_summary_counts 500 [] =
     \<lparr> sum_Verified = 0, sum_Verifying = 0, sum_ActionRequired = 0,
       sum_Enforcing = 0, sum_Failed = 0, sum_RemovingEnforcement = 0 \<rparr>"
    by (simp add: bitlocker_summary_counts_def count_if_def)
  show ?thesis
    using rows srows empty client_error_classified_failed
      [where r = ?r and e = "''tpm''" and now = 500 and cfg = "\<lambda>t. Inr True"
         and h = "\<lparr> ID = 1, Platform = ''windows'', TeamID = None,
                     MDMInfo = Some \<lparr> IsServer = False \<rparr> \<rparr>"
         and hmdm = ?hmdm and hdek = ?hdek and hds = ?hds and rs = "[]"
         and teamID = None and hs = ?hs and hmdm' = ?hmdm and hdek' = ?hdek and hds' = ?hds
         and ?rs1.0 = "[]" and ?rs2.0 = "[]"]
    by simp
qed

text \<open>
  C3 (as the code has it). For a host that is not a server, has no client error and an
  available key recorded at \<open>T0\<close>, whose disk reports not-encrypted with a timestamp
  \<open>T1 \<ge> T0\<close>, the classifier returns Verifying when the statement is evaluated no later
  than one hour after \<open>T0\<close> and Enforcing when it is evaluated later: the grace window is
  measured from the key's timestamp to the evaluation time, not to the disk's timestamp.
  So an observation more than an hour after the key is Enforcing at every evaluation time
  from the observation on, and an observation within the hour is Verifying only until the
  hour has passed.
\<close>

theorem grace_window_by_evaluation_time:
  assumes "hmdm_is_server r = Some 0" and "\<not> sql_true (whereClientError r)"
    and "sql_true (whereKeyAvailable r)" and "hdek_updated_at r = Some T0"
    and "\<not> sql_true (whereEncrypted r)" and "hd_updated_at r = Some T1" and "T0 \<le> T1"
  shows "bitlocker_status_case now r =
           Some (if now \<le> T0 + 3600 then DiskEncryptionVerifying else DiskEncryptionEnforcing)
    \<and> (T0 + 3600 < T1 \<and> T1 \<le> now \<longrightarrow> bitlocker_status_case now r = Some DiskEncryptionEnforcing)"
  using assms
  by (simp add: bitlocker_status_case_def whereBitLockerStatus.simps where_eqs)

theorem grace_window_by_evaluation_time_witness:
  "bitlocker_status_case 2400
     \<lparr> hmdm_is_server = Some 0, hdek_base64_encrypted = Some ''key'',
       hdek_decryptable = Some 1, hdek_updated_at = Some 0,
       hdek_client_error = None, hd_encrypted = Some 0, hd_updated_at = Some 1800 \<rparr>
     = Some DiskEncryptionVerifying
   \<and> bitlocker_status_case 6000
     \<lparr> hmdm_is_server = Some 0, hdek_base64_encrypted = Some ''key'',
       hdek_decryptable = Some 1, hdek_updated_at = Some 0,
       hdek_client_error = None, hd_encrypted = Some 0, hd_updated_at = Some 5400 \<rparr>
     = Some DiskEncryptionEnforcing"
  using grace_window_by_evaluation_time
      [where r = "\<lparr> hmdm_is_server = Some 0, hdek_base64_encrypted = Some ''key'',
         hdek_decryptable = Some 1, hdek_updated_at = Some 0,
         hdek_client_error = None, hd_encrypted = Some 0, hd_updated_at = Some 1800 \<rparr>"
         and ?T0.0 = 0 and ?T1.0 = 1800 and now = 2400]
    grace_window_by_evaluation_time
      [where r = "\<lparr> hmdm_is_server = Some 0, hdek_base64_encrypted = Some ''key'',
         hdek_decryptable = Some 1, hdek_updated_at = Some 0,
         hdek_client_error = None, hd_encrypted = Some 0, hd_updated_at = Some 5400 \<rparr>"
         and ?T0.0 = 0 and ?T1.0 = 5400 and now = 6000]
  by (simp add: where_eqs)

text \<open>
  The claim as stated fails: key at 0, disk not-encrypted at 1800 (thirty minutes later),
  evaluated at 7200 (two hours after the key) is Enforcing, not Verifying.
\<close>

theorem grace_window_counterexample:
  "bitlocker_status_case 7200
     \<lparr> hmdm_is_server = Some 0, hdek_base64_encrypted = Some ''key'',
       hdek_decryptable = Some 1, hdek_updated_at = Some 0,
       hdek_client_error = None, hd_encrypted = Some 0, hd_updated_at = Some 1800 \<rparr>
     = Some DiskEncryptionEnforcing"
  by (simp add: bitlocker_status_case_def whereBitLockerStatus.simps where_eqs)

section \<open>The combined summary\<close>






lemmas delivery_defs = MDMDeliveryFailed_def MDMDeliveryPending_def MDMDeliveryVerifying_def
  MDMDeliveryVerified_def MDMOperationTypeInstall_def MDMOperationTypeRemove_def



section \<open>\<^verbatim>\<open>NewMDMWindowsConfigProfile\<close>\<close>

text \<open>
  C10. When a Windows profile with the same name exists in the same team, or an Apple
  profile with the same name exists for that team (no team is team 0),
  \<open>NewMDMWindowsConfigProfile\<close> returns the exists error and the database is unchanged.
\<close>

theorem new_profile_name_collision:
  assumes "(\<exists>w \<in> set (mdm_windows_configuration_profiles d).
              mwcp_team_id w = (case cp_TeamID cp of None \<Rightarrow> 0 | Some t \<Rightarrow> t)
              \<and> mwcp_name w = cp_Name cp)
         \<or> (\<exists>a \<in> set (mdm_apple_configuration_profiles d).
              macp_name a = cp_Name cp
              \<and> macp_team_id a = (case cp_TeamID cp of None \<Rightarrow> 0 | Some t \<Rightarrow> t))"
  shows "NewMDMWindowsConfigProfile profileUUID cp d =
           (Inl (ExistsError ''MDMWindowsConfigProfile.Name'' (cp_Name cp) (cp_TeamID cp)), d)"
  using assms
  by (auto simp add: NewMDMWindowsConfigProfile_def Let_def list_ex_iff)

theorem new_profile_name_collision_witness:
  "NewMDMWindowsConfigProfile ''u2''
     \<lparr> cp_ProfileUUID = [], cp_TeamID = Some 1, cp_Name = ''wifi'', cp_SyncML = ''<Replace/>'' \<rparr>
     \<lparr> mdm_windows_enrollments = [], windows_mdm_commands = [], windows_mdm_command_queue = [],
       windows_mdm_responses = [], windows_mdm_responses_auto_increment = 1,
       windows_mdm_command_results = [], host_mdm_windows_profiles = [],
       mdm_windows_configuration_profiles =
         [\<lparr> mwcp_profile_uuid = ''u1'', mwcp_team_id = 1, mwcp_name = ''wifi'',
            mwcp_syncml = ''<Add/>'' \<rparr>],
       mdm_apple_configuration_profiles = [] \<rparr>
   = (Inl (ExistsError ''MDMWindowsConfigProfile.Name'' ''wifi'' (Some 1)),
     \<lparr> mdm_windows_enrollments = [], windows_mdm_commands = [], windows_mdm_command_queue = [],
       windows_mdm_responses = [], windows_mdm_responses_auto_increment = 1,
       windows_mdm_command_results = [], host_mdm_windows_profiles = [],
       mdm_windows_configuration_profiles =
         [\<lparr> mwcp_profile_uuid = ''u1'', mwcp_team_id = 1, mwcp_name = ''wifi'',
            mwcp_syncml = ''<Add/>'' \<rparr>],
       mdm_apple_configuration_profiles = [] \<rparr>)
   \<and> NewMDMWindowsConfigProfile ''u2''
     \<lparr> cp_ProfileUUID = [], cp_TeamID = None, cp_Name = ''vpn'', cp_SyncML = ''<Replace/>'' \<rparr>
     \<lparr> mdm_windows_enrollments = [], windows_mdm_commands = [], windows_mdm_command_queue = [],
       windows_mdm_responses = [], windows_mdm_responses_auto_increment = 1,
       windows_mdm_command_results = [], host_mdm_windows_profiles = [],
       mdm_windows_configuration_profiles = [],
       mdm_apple_configuration_profiles = [\<lparr> macp_name = ''vpn'', macp_team_id = 0 \<rparr>] \<rparr>
   = (Inl (ExistsError ''MDMWindowsConfigProfile.Name'' ''vpn'' None),
     \<lparr> mdm_windows_enrollments = [], windows_mdm_commands = [], windows_mdm_command_queue = [],
       windows_mdm_responses = [], windows_mdm_responses_auto_increment = 1,
       windows_mdm_command_results = [], host_mdm_windows_profiles = [],
       mdm_windows_configuration_profiles = [],
       mdm_apple_configuration_profiles = [\<lparr> macp_name = ''vpn'', macp_team_id = 0 \<rparr>] \<rparr>)"
  using
    new_profile_name_collision [where profileUUID = "''u2''"
      and cp = "\<lparr> cp_ProfileUUID = [], cp_TeamID = Some 1, cp_Name = ''wifi'',
                   cp_SyncML = ''<Replace/>'' \<rparr>"
      and d = "\<lparr> mdm_windows_enrollments = [], windows_mdm_commands = [],
                 windows_mdm_command_queue = [], windows_mdm_responses = [],
                 windows_mdm_responses_auto_increment = 1,
                 windows_mdm_command_results = [], host_mdm_windows_profiles = [],
                 mdm_windows_configuration_profiles =
                   [\<lparr> mwcp_profile_uuid = ''u1'', mwcp_team_id = 1, mwcp_name = ''wifi'',
                      mwcp_syncml = ''<Add/>'' \<rparr>],
                 mdm_apple_configuration_profiles = [] \<rparr>"]
    new_profile_name_collision [where profileUUID = "''u2''"
      and cp = "\<lparr> cp_ProfileUUID = [], cp_TeamID = None, cp_Name = ''vpn'',
                   cp_SyncML = ''<Replace/>'' \<rparr>"
      and d = "\<lparr> mdm_windows_enrollments = [], windows_mdm_commands = [],
                 windows_mdm_command_queue = [], windows_mdm_responses = [],
                 windows_mdm_responses_auto_increment = 1,
                 windows_mdm_command_results = [], host_mdm_windows_profiles = [],
                 mdm_windows_configuration_profiles = [],
                 mdm_apple_configuration_profiles =
                   [\<lparr> macp_name = ''vpn'', macp_team_id = 0 \<rparr>] \<rparr>"]
  by simp

section \<open>Install and remove sets\<close>

lemma set_left_join:
  "set (left_join xs f) =
     {(a, None) | a. a \<in> set xs \<and> f a = []} \<union> {(a, Some b) | a b. a \<in> set xs \<and> b \<in> set (f a)}"
  by (induction xs) (auto simp add: left_join_def split: list.splits)

lemma in_left_join_None: "(a, None) \<in> set (left_join xs f) \<longleftrightarrow> a \<in> set xs \<and> f a = []"
  by (auto simp add: set_left_join)

lemma in_left_join_Some: "(a, Some b) \<in> set (left_join xs f) \<longleftrightarrow> a \<in> set xs \<and> b \<in> set (f a)"
  by (auto simp add: set_left_join)

lemma host_in_true: "sql_true (host_in F u) \<longleftrightarrow> (F = [] \<or> u \<in> set F)"
  by (cases F) (simp_all add: host_in_def sql_true_def)

lemma desired_state_filter:
  "x \<in> set (desired_state mwcps hs mwes (\<lambda>h. host_in F (h_uuid h))) \<longleftrightarrow>
   x \<in> set (desired_state mwcps hs mwes (\<lambda>h. Some True)) \<and> (F = [] \<or> h_uuid (snd (fst x)) \<in> set F)"
  by (cases F) (auto simp add: desired_state_def host_in_def sql_and_Some sql_true_Some)

lemma install_where:
  "sql_true (sql_or
              (sql_and (is_null (map_option hmwp_profile_uuid m))
                       (is_null (map_option hmwp_host_uuid m)))
              (sql_and (sql_and
                 (is_not_null (map_option hmwp_host_uuid m))
                 (sql_eq (Option.bind m hmwp_operation_type) MDMOperationTypeInstall))
                 (is_null (Option.bind m hmwp_status))))
   \<longleftrightarrow> (case m of None \<Rightarrow> True
        | Some r \<Rightarrow> hmwp_operation_type r = Some MDMOperationTypeInstall \<and> hmwp_status r = None)"
  by (cases m; cases "Option.bind m hmwp_operation_type") (auto simp add: sql_defs)

lemma in_install_pairs:
  "(u, q) \<in> payload_pairs (listMDMWindowsProfilesToInstallDB mwcps hs mwes hmwps F) \<longleftrightarrow>
   (u, q) \<in> desired_pairs mwcps hs mwes F \<and>
     ((\<forall>m \<in> set hmwps. \<not> (hmwp_profile_uuid m = q \<and> hmwp_host_uuid m = u)) \<or>
      (\<exists>m \<in> set hmwps. hmwp_profile_uuid m = q \<and> hmwp_host_uuid m = u
          \<and> hmwp_operation_type m = Some MDMOperationTypeInstall \<and> hmwp_status m = None))"
  (is "?L \<longleftrightarrow> ?R")
proof
  assume ?L
  then obtain x m where
    xm: "(x, m) \<in> set (left_join (desired_state mwcps hs mwes (\<lambda>h. host_in F (h_uuid h)))
             (\<lambda>((p, h), e). filter (\<lambda>m. hmwp_profile_uuid m = mwcp_profile_uuid p
                                        \<and> hmwp_host_uuid m = h_uuid h) hmwps))"
    and w: "case m of None \<Rightarrow> True
        | Some r \<Rightarrow> hmwp_operation_type r = Some MDMOperationTypeInstall \<and> hmwp_status r = None"
    and u: "u = h_uuid (snd (fst x))" and q: "q = mwcp_profile_uuid (fst (fst x))"
    unfolding payload_pairs_def listMDMWindowsProfilesToInstallDB_def install_where
    by (auto simp add: case_prod_unfold)
  let ?M = "\<lambda>((p, h), e). filter (\<lambda>m. hmwp_profile_uuid m = mwcp_profile_uuid p
                                        \<and> hmwp_host_uuid m = h_uuid h) hmwps"
  from xm have x: "x \<in> set (desired_state mwcps hs mwes (\<lambda>h. host_in F (h_uuid h)))"
    by (auto simp add: set_left_join)
  then have d: "(u, q) \<in> desired_pairs mwcps hs mwes F"
    unfolding desired_pairs_def u q by (force simp add: case_prod_unfold)
  show ?R
  proof (cases m)
    case None
    with xm have "?M x = []" by (auto simp add: set_left_join)
    then have "\<forall>m \<in> set hmwps. \<not> (hmwp_profile_uuid m = q \<and> hmwp_host_uuid m = u)"
      unfolding u q by (auto simp add: case_prod_unfold filter_empty_conv)
    with d show ?thesis by blast
  next
    case (Some r)
    with xm have "r \<in> set (?M x)" by (auto simp add: set_left_join)
    then have "r \<in> set hmwps \<and> hmwp_profile_uuid r = q \<and> hmwp_host_uuid r = u"
      unfolding u q by (auto simp add: case_prod_unfold)
    with w Some d show ?thesis by auto
  qed
next
  assume r: ?R
  let ?M = "\<lambda>((p, h), e). filter (\<lambda>m. hmwp_profile_uuid m = mwcp_profile_uuid p
                                        \<and> hmwp_host_uuid m = h_uuid h) hmwps"
  let ?DS = "desired_state mwcps hs mwes (\<lambda>h. host_in F (h_uuid h))"
  from r obtain x where x: "x \<in> set ?DS"
    and u: "u = h_uuid (snd (fst x))" and q: "q = mwcp_profile_uuid (fst (fst x))"
    unfolding desired_pairs_def by (auto simp add: case_prod_unfold)
  have "\<exists>m. (x, m) \<in> set (left_join ?DS ?M) \<and>
          (case m of None \<Rightarrow> True
           | Some r \<Rightarrow> hmwp_operation_type r = Some MDMOperationTypeInstall \<and> hmwp_status r = None)"
  proof (cases "\<forall>m \<in> set hmwps. \<not> (hmwp_profile_uuid m = q \<and> hmwp_host_uuid m = u)")
    case True
    then have "?M x = []"
      unfolding u q by (auto simp add: case_prod_unfold filter_empty_conv)
    with x have "(x, None) \<in> set (left_join ?DS ?M)" by (simp only: in_left_join_None)
    then show ?thesis by (intro exI[of _ None]) simp
  next
    case False
    with r obtain m where m: "m \<in> set hmwps" "hmwp_profile_uuid m = q" "hmwp_host_uuid m = u"
      "hmwp_operation_type m = Some MDMOperationTypeInstall" "hmwp_status m = None"
      by blast
    then have "m \<in> set (?M x)" unfolding u q by (auto simp add: case_prod_unfold)
    with x have "(x, Some m) \<in> set (left_join ?DS ?M)" by (simp only: in_left_join_Some)
    with m show ?thesis by (intro exI[of _ "Some m"]) simp
  qed
  then obtain m where "(x, m) \<in> set (left_join ?DS ?M)" and
     "case m of None \<Rightarrow> True
           | Some r \<Rightarrow> hmwp_operation_type r = Some MDMOperationTypeInstall \<and> hmwp_status r = None"
    by blast
  then show ?L
    unfolding payload_pairs_def listMDMWindowsProfilesToInstallDB_def install_where u q
    by (force simp add: case_prod_unfold)
qed

lemma remove_rows_set:
  "set (profiles_to_remove_rows mwcps hs mwes hmwps F) =
     {m \<in> set hmwps. (hmwp_host_uuid m, hmwp_profile_uuid m) \<notin> desired_pairs mwcps hs mwes []
                     \<and> (F = [] \<or> hmwp_host_uuid m \<in> set F)}"
  (is "?L = ?R")
proof -
  let ?DS = "desired_state mwcps hs mwes (\<lambda>h. Some True)"
  let ?M = "\<lambda>m. filter (\<lambda>((p, h), e). hmwp_profile_uuid m = mwcp_profile_uuid p
                                      \<and> hmwp_host_uuid m = h_uuid h) ?DS"
  have dp: "desired_pairs mwcps hs mwes [] =
              (\<lambda>x. (h_uuid (snd (fst x)), mwcp_profile_uuid (fst (fst x)))) ` set ?DS"
    by (simp add: desired_pairs_def host_in_def case_prod_unfold)
  have nomatch: "?M m = [] \<longleftrightarrow> (hmwp_host_uuid m, hmwp_profile_uuid m) \<notin> desired_pairs mwcps hs mwes []" for m
    unfolding dp by (auto simp add: filter_empty_conv case_prod_unfold image_iff)
  have w: "sql_true (sql_and (sql_and (is_null (map_option f d)) (is_null (map_option g d)))
              (host_in F u))
           \<longleftrightarrow> d = None \<and> (F = [] \<or> u \<in> set F)" for d u and f g :: "_ \<Rightarrow> string"
    by (cases F; cases d) (simp_all add: host_in_def sql_defs)
  have "?L = {m. \<exists>d. (m, d) \<in> set (left_join hmwps ?M) \<and> d = None \<and> (F = [] \<or> hmwp_host_uuid m \<in> set F)}"
    unfolding profiles_to_remove_rows_def
    by (auto simp add: w case_prod_unfold image_iff)
  also have "\<dots> = ?R"
    by (auto simp add: set_left_join nomatch)
  finally show ?thesis .
qed


lemma desired_pairs_filter:
  "desired_pairs mwcps hs mwes F =
     {x \<in> desired_pairs mwcps hs mwes []. F = [] \<or> fst x \<in> set F}"
proof -
  have e: "(\<lambda>h. host_in [] (h_uuid h)) = (\<lambda>h. Some True)"
    by (simp add: host_in_def)
  show ?thesis
    unfolding desired_pairs_def e set_map
    by (auto simp add: e desired_state_filter[of _ mwcps hs mwes F] case_prod_unfold image_iff)
qed

lemma remove_pairs:
  assumes "listMDMWindowsProfilesToRemoveDB mwcps hs mwes hmwps F = Inr toRemove"
  shows "payload_pairs toRemove =
     {x \<in> actual_pairs hmwps F. x \<notin> desired_pairs mwcps hs mwes []}"
proof -
  from assms have "toRemove = map (\<lambda>m.
             \<lparr> pp_ProfileUUID = hmwp_profile_uuid m, pp_ProfileName = [],
               pp_HostUUID = hmwp_host_uuid m, pp_Status = hmwp_status m,
               pp_OperationType = (case hmwp_operation_type m of None \<Rightarrow> [] | Some t \<Rightarrow> t),
               pp_Detail = (case hmwp_detail m of None \<Rightarrow> [] | Some d \<Rightarrow> d),
               pp_CommandUUID = hmwp_command_uuid m \<rparr>)
           (profiles_to_remove_rows mwcps hs mwes hmwps F)"
    by (auto simp add: listMDMWindowsProfilesToRemoveDB_def Let_def split: if_splits)
  then have "payload_pairs toRemove =
      (\<lambda>m. (hmwp_host_uuid m, hmwp_profile_uuid m)) ` set (profiles_to_remove_rows mwcps hs mwes hmwps F)"
    by (simp add: payload_pairs_def image_image)
  then show ?thesis
    by (auto simp add: remove_rows_set actual_pairs_def host_in_true image_iff)
qed

text \<open>
  C7. For the desired state D (profiles joined to the enrolled Windows hosts of their team,
  no team being team 0) and the actual rows A of \<open>host_mdm_windows_profiles\<close>, both under
  the host filter of the call: the pairs to install and the pairs to remove are disjoint,
  together with the pairs in both D and A they make up exactly D \<union> A, and no pair in both
  D and A is to be removed.
\<close>

theorem install_remove_cover:
  assumes "listMDMWindowsProfilesToRemoveDB mwcps hs mwes hmwps hostUUIDs = Inr toRemove"
  shows "(let toInstall = payload_pairs
                 (listMDMWindowsProfilesToInstallDB mwcps hs mwes hmwps hostUUIDs);
              R = payload_pairs toRemove;
              D = desired_pairs mwcps hs mwes hostUUIDs;
              A = actual_pairs hmwps hostUUIDs
          in toInstall \<inter> R = {} \<and> toInstall \<union> R \<union> (D \<inter> A) = D \<union> A \<and> R \<inter> (D \<inter> A) = {})"
proof -
  let ?I = "payload_pairs (listMDMWindowsProfilesToInstallDB mwcps hs mwes hmwps hostUUIDs)"
  let ?R = "payload_pairs toRemove"
  let ?D = "desired_pairs mwcps hs mwes hostUUIDs"
  let ?A = "actual_pairs hmwps hostUUIDs"
  have R: "?R = {x \<in> ?A. x \<notin> desired_pairs mwcps hs mwes []}"
    by (rule remove_pairs[OF assms])
  have D: "?D = {x \<in> desired_pairs mwcps hs mwes []. hostUUIDs = [] \<or> fst x \<in> set hostUUIDs}"
    by (rule desired_pairs_filter)
  have A: "x \<in> ?A \<longleftrightarrow> (\<exists>m \<in> set hmwps. x = (hmwp_host_uuid m, hmwp_profile_uuid m))
                      \<and> (hostUUIDs = [] \<or> fst x \<in> set hostUUIDs)" for x
    by (auto simp add: actual_pairs_def host_in_true)
  have I_sub: "?I \<subseteq> ?D"
    using in_install_pairs[of _ _ mwcps hs mwes hmwps hostUUIDs] by auto
  have I_sup: "?D - ?A \<subseteq> ?I"
  proof
    fix x assume x: "x \<in> ?D - ?A"
    obtain u q where uq: "x = (u, q)" by (cases x)
    from x have "hostUUIDs = [] \<or> fst x \<in> set hostUUIDs" unfolding D by blast
    with x have "\<forall>m \<in> set hmwps. \<not> (hmwp_profile_uuid m = q \<and> hmwp_host_uuid m = u)"
      unfolding uq using A[of "(u, q)"] by auto
    with x show "x \<in> ?I" unfolding uq using in_install_pairs[of u q mwcps hs mwes hmwps hostUUIDs] by blast
  qed
  have RD: "?R \<inter> ?D = {}" unfolding R D by blast
  have RA: "?R \<subseteq> ?A" unfolding R by blast
  have AR: "?A - ?D \<subseteq> ?R"
  proof
    fix x assume x: "x \<in> ?A - ?D"
    then have "hostUUIDs = [] \<or> fst x \<in> set hostUUIDs" using A[of x] by blast
    with x have "x \<notin> desired_pairs mwcps hs mwes []" unfolding D by blast
    with x show "x \<in> ?R" unfolding R by blast
  qed
  from I_sub I_sup RD RA AR show ?thesis
    unfolding Let_def by blast
qed

theorem install_remove_cover_witness:
  "(let toInstall = payload_pairs
          (listMDMWindowsProfilesToInstallDB
             [\<lparr> mwcp_profile_uuid = ''P1'', mwcp_team_id = 1, mwcp_name = ''n1'', mwcp_syncml = ''x'' \<rparr>]
             [\<lparr> h_id = 1, h_uuid = ''H1'', h_platform = ''windows'', h_team_id = Some 1 \<rparr>]
             [\<lparr> mwe_id = 1, mwe_mdm_device_id = ''D1'', mwe_mdm_hardware_id = ''HW1'',
                mwe_host_uuid = ''H1'' \<rparr>]
             [\<lparr> hmwp_host_uuid = ''H1'', hmwp_profile_uuid = ''P2'',
                hmwp_status = Some ''verified'', hmwp_operation_type = Some ''install'',
                hmwp_detail = None, hmwp_command_uuid = ''C9'', hmwp_profile_name = ''old'' \<rparr>]
             []);
        R = payload_pairs
          [\<lparr> pp_ProfileUUID = ''P2'', pp_ProfileName = [], pp_HostUUID = ''H1'',
             pp_Status = Some ''verified'', pp_OperationType = ''install'', pp_Detail = [],
             pp_CommandUUID = ''C9'' \<rparr>];
        D = desired_pairs
             [\<lparr> mwcp_profile_uuid = ''P1'', mwcp_team_id = 1, mwcp_name = ''n1'', mwcp_syncml = ''x'' \<rparr>]
             [\<lparr> h_id = 1, h_uuid = ''H1'', h_platform = ''windows'', h_team_id = Some 1 \<rparr>]
             [\<lparr> mwe_id = 1, mwe_mdm_device_id = ''D1'', mwe_mdm_hardware_id = ''HW1'',
                mwe_host_uuid = ''H1'' \<rparr>]
             [];
        A = actual_pairs
             [\<lparr> hmwp_host_uuid = ''H1'', hmwp_profile_uuid = ''P2'',
                hmwp_status = Some ''verified'', hmwp_operation_type = Some ''install'',
                hmwp_detail = None, hmwp_command_uuid = ''C9'', hmwp_profile_name = ''old'' \<rparr>]
             []
    in toInstall \<inter> R = {} \<and> toInstall \<union> R \<union> (D \<inter> A) = D \<union> A \<and> R \<inter> (D \<inter> A) = {})"
proof -
  have h: "listMDMWindowsProfilesToRemoveDB
             [\<lparr> mwcp_profile_uuid = ''P1'', mwcp_team_id = 1, mwcp_name = ''n1'', mwcp_syncml = ''x'' \<rparr>]
             [\<lparr> h_id = 1, h_uuid = ''H1'', h_platform = ''windows'', h_team_id = Some 1 \<rparr>]
             [\<lparr> mwe_id = 1, mwe_mdm_device_id = ''D1'', mwe_mdm_hardware_id = ''HW1'',
                mwe_host_uuid = ''H1'' \<rparr>]
             [\<lparr> hmwp_host_uuid = ''H1'', hmwp_profile_uuid = ''P2'',
                hmwp_status = Some ''verified'', hmwp_operation_type = Some ''install'',
                hmwp_detail = None, hmwp_command_uuid = ''C9'', hmwp_profile_name = ''old'' \<rparr>]
             []
         = Inr [\<lparr> pp_ProfileUUID = ''P2'', pp_ProfileName = [], pp_HostUUID = ''H1'',
             pp_Status = Some ''verified'', pp_OperationType = ''install'', pp_Detail = [],
             pp_CommandUUID = ''C9'' \<rparr>]"
    by (simp add: listMDMWindowsProfilesToRemoveDB_def profiles_to_remove_rows_def
          left_join_def desired_state_def inner_join_def team_join_def host_in_def
          sql_defs Let_def)
  show ?thesis by (rule install_remove_cover[OF h])
qed

section \<open>Response correlation\<close>

lemma upsert_status_row_existing:
  assumes "\<exists>r \<in> set hmwps. hmwp_host_uuid r = h \<and> hmwp_profile_uuid r = p"
  shows "map (\<lambda>r. (hmwp_host_uuid r, hmwp_profile_uuid r)) (upsert_status_row h p d s hmwps)
       = map (\<lambda>r. (hmwp_host_uuid r, hmwp_profile_uuid r)) hmwps"
  using assms by (auto simp add: upsert_status_row_def list_ex_iff)

lemma status_rows_keys:
  "status_rows m hps = Inr rows \<Longrightarrow>
     map (\<lambda>(h, p, d, s). (h, p)) rows = map (\<lambda>r. (hmwp_host_uuid r, hmwp_profile_uuid r)) hps"
  by (induction hps arbitrary: rows) (auto split: option.splits sum.splits)

lemma fold_upsert_status_keys:
  assumes "\<forall>(h, p, d, s) \<in> set rows. (h, p) \<in> set (map (\<lambda>r. (hmwp_host_uuid r, hmwp_profile_uuid r)) hmwps)"
  shows "map (\<lambda>r. (hmwp_host_uuid r, hmwp_profile_uuid r)) (fold (\<lambda>(h, p, d, s). upsert_status_row h p d s) rows hmwps)
       = map (\<lambda>r. (hmwp_host_uuid r, hmwp_profile_uuid r)) hmwps"
  using assms
proof (induction rows arbitrary: hmwps)
  case Nil
  then show ?case by simp
next
  case (Cons a rows)
  obtain h p d s where a: "a = (h, p, d, s)" by (cases a)
  from Cons.prems have ex: "\<exists>r \<in> set hmwps. hmwp_host_uuid r = h \<and> hmwp_profile_uuid r = p"
    unfolding a by auto
  have k: "map (\<lambda>r. (hmwp_host_uuid r, hmwp_profile_uuid r)) (upsert_status_row h p d s hmwps)
       = map (\<lambda>r. (hmwp_host_uuid r, hmwp_profile_uuid r)) hmwps"
    by (rule upsert_status_row_existing[OF ex])
  have "map (\<lambda>r. (hmwp_host_uuid r, hmwp_profile_uuid r))
          (fold (\<lambda>(h, p, d, s). upsert_status_row h p d s) rows (upsert_status_row h p d s hmwps))
      = map (\<lambda>r. (hmwp_host_uuid r, hmwp_profile_uuid r)) (upsert_status_row h p d s hmwps)"
    apply (rule Cons.IH)
    using Cons.prems unfolding k a by auto
  then show ?case unfolding a by (simp add: k)
qed

lemma set_map_filter_subset: "set (map f (filter P xs)) \<subseteq> set (map f xs)"
  by auto

lemma update_status_keys:
  assumes "updateMDMWindowsHostProfileStatusFromResponseDB payloads hmwps = Inr hmwps'"
  shows "map (\<lambda>r. (hmwp_host_uuid r, hmwp_profile_uuid r)) hmwps'
       = map (\<lambda>r. (hmwp_host_uuid r, hmwp_profile_uuid r)) hmwps"
proof (cases payloads)
  case Nil
  with assms show ?thesis by (simp add: updateMDMWindowsHostProfileStatusFromResponseDB_def)
next
  case (Cons p0 ps)
  let ?match = "filter (\<lambda>r. hmwp_host_uuid r = pp_HostUUID p0
       \<and> hmwp_command_uuid r \<in> set (replicate (length payloads) [] @ map pp_CommandUUID payloads)) hmwps"
  from assms Cons obtain rows where
    sr: "status_rows (uuidsToPayloads payloads Map.empty) ?match = Inr rows"
    and res: "hmwps' = fold (\<lambda>(h, p, d, s). upsert_status_row h p d s) rows hmwps"
    by (auto simp add: updateMDMWindowsHostProfileStatusFromResponseDB_def Let_def
          split: if_splits sum.splits)
  have "set (map (\<lambda>r. (hmwp_host_uuid r, hmwp_profile_uuid r)) ?match)
          \<subseteq> set (map (\<lambda>r. (hmwp_host_uuid r, hmwp_profile_uuid r)) hmwps)"
    by (rule set_map_filter_subset)
  then have "set (map (\<lambda>(h, p, d, s). (h, p)) rows) \<subseteq> set (map (\<lambda>r. (hmwp_host_uuid r, hmwp_profile_uuid r)) hmwps)"
    by (simp only: status_rows_keys[OF sr])
  then have "\<forall>(h, p, d, s) \<in> set rows. (h, p) \<in> set (map (\<lambda>r. (hmwp_host_uuid r, hmwp_profile_uuid r)) hmwps)"
    by force
  then show ?thesis unfolding res by (rule fold_upsert_status_keys)
qed


lemma withRetryTxx_result:
  "withRetryTxx fn attempts = Inr d' \<Longrightarrow> \<exists>a \<in> set attempts. \<not> conflict a \<and> fn (seen a) = Inr d'"
  by (induction attempts) (auto split: if_splits)

lemma saveResponseTx_keys:
  assumes "saveResponseTx c enrollment fullResponse d = Inr d'"
  shows "map (\<lambda>r. (hmwp_host_uuid r, hmwp_profile_uuid r)) (host_mdm_windows_profiles d')
       = map (\<lambda>r. (hmwp_host_uuid r, hmwp_profile_uuid r)) (host_mdm_windows_profiles d)"
  using assms
  by (auto simp add: saveResponseTx_def Let_def dest!: update_status_keys
        split: prod.splits if_splits sum.splits)

text \<open>
  C5. A device response never inserts a row into \<open>host_mdm_windows_profiles\<close>: when
  \<open>updateMDMWindowsHostProfileStatusFromResponseDB\<close> succeeds the table has the same
  (host, profile) keys, row for row, as before, and so has the database that
  \<open>MDMWindowsSaveResponse\<close> commits, compared with the state its transaction started from.
  (When either fails, the transaction is rolled back.)
\<close>

theorem response_never_inserts_host_profiles:
  "(updateMDMWindowsHostProfileStatusFromResponseDB payloads hmwps = Inr hmwps' \<longrightarrow>
      map (\<lambda>r. (hmwp_host_uuid r, hmwp_profile_uuid r)) hmwps'
        = map (\<lambda>r. (hmwp_host_uuid r, hmwp_profile_uuid r)) hmwps)
   \<and> (MDMWindowsSaveResponse c reader attempts deviceID fullResponse = Inr d' \<longrightarrow>
      (\<exists>a \<in> set attempts. \<not> conflict a \<and>
         map (\<lambda>r. (hmwp_host_uuid r, hmwp_profile_uuid r)) (host_mdm_windows_profiles d')
           = map (\<lambda>r. (hmwp_host_uuid r, hmwp_profile_uuid r))
               (host_mdm_windows_profiles (seen a))))"
proof (intro conjI impI)
  assume "updateMDMWindowsHostProfileStatusFromResponseDB payloads hmwps = Inr hmwps'"
  then show "map (\<lambda>r. (hmwp_host_uuid r, hmwp_profile_uuid r)) hmwps'
        = map (\<lambda>r. (hmwp_host_uuid r, hmwp_profile_uuid r)) hmwps"
    by (rule update_status_keys)
next
  assume "MDMWindowsSaveResponse c reader attempts deviceID fullResponse = Inr d'"
  then obtain enrollment where
    "withRetryTxx (saveResponseTx c enrollment fullResponse) attempts = Inr d'"
    by (auto simp add: MDMWindowsSaveResponse_def split: if_splits sum.splits)
  then obtain a where a: "a \<in> set attempts" "\<not> conflict a"
    "saveResponseTx c enrollment fullResponse (seen a) = Inr d'"
    by (blast dest: withRetryTxx_result)
  from saveResponseTx_keys[OF a(3)] a(1,2)
  show "\<exists>a \<in> set attempts. \<not> conflict a \<and>
         map (\<lambda>r. (hmwp_host_uuid r, hmwp_profile_uuid r)) (host_mdm_windows_profiles d')
           = map (\<lambda>r. (hmwp_host_uuid r, hmwp_profile_uuid r))
               (host_mdm_windows_profiles (seen a))"
    by blast
qed

lemma saveResponseTx_enrollments:
  "saveResponseTx c enrollment fullResponse (d\<lparr> mdm_windows_enrollments := E \<rparr>)
     = map_sum id (\<lambda>x. x\<lparr> mdm_windows_enrollments := E \<rparr>)
         (saveResponseTx c enrollment fullResponse d)"
  by (simp add: saveResponseTx_def Let_def split: prod.splits sum.splits)

lemma withRetryTxx_enrollments:
  "map_sum id (\<lambda>d. d\<lparr> mdm_windows_enrollments := [] \<rparr>)
     (withRetryTxx (saveResponseTx c enrollment fullResponse)
        (map (\<lambda>a. a\<lparr> seen := (seen a)\<lparr> mdm_windows_enrollments := g (seen a) \<rparr> \<rparr>) attempts))
   = map_sum id (\<lambda>d. d\<lparr> mdm_windows_enrollments := [] \<rparr>)
     (withRetryTxx (saveResponseTx c enrollment fullResponse) attempts)"
proof (induction attempts)
  case Nil
  then show ?case by simp
next
  case (Cons a attempts)
  show ?case
  proof (cases "conflict a")
    case True
    with Cons show ?thesis by simp
  next
    case False
    then show ?thesis
      by (cases "saveResponseTx c enrollment fullResponse (seen a)")
         (simp_all add: saveResponseTx_enrollments)
  qed
qed

lemma withRetryTxx_first:
  "withRetryTxx fn attempts = Inr d' \<Longrightarrow>
     \<exists>pre a post. attempts = pre @ a # post \<and> list_all conflict pre \<and> \<not> conflict a
                  \<and> fn (seen a) = Inr d'"
proof (induction attempts)
  case Nil
  then show ?case by simp
next
  case (Cons b attempts)
  show ?case
  proof (cases "conflict b")
    case True
    with Cons.prems have "withRetryTxx fn attempts = Inr d'" by simp
    from Cons.IH[OF this] obtain pre a post where
      p: "attempts = pre @ a # post" "list_all conflict pre" "\<not> conflict a" "fn (seen a) = Inr d'"
      by blast
    from p True have "b # attempts = (b # pre) @ a # post \<and> list_all conflict (b # pre)
        \<and> \<not> conflict a \<and> fn (seen a) = Inr d'" by simp
    then show ?thesis by blast
  next
    case False
    with Cons.prems have "b # attempts = [] @ b # attempts \<and> list_all conflict []
        \<and> \<not> conflict b \<and> fn (seen b) = Inr d'" by simp
    then show ?thesis by blast
  qed
qed

lemma saveResponseTx_response_row:
  assumes "saveResponseTx c enrollment fullResponse d = Inr d'"
  shows "windows_mdm_responses d' = windows_mdm_responses d
       \<or> windows_mdm_responses d' = windows_mdm_responses d @
            [\<lparr> resp_id = windows_mdm_responses_auto_increment d,
               resp_enrollment_id = mwe_id enrollment, raw_response = Raw fullResponse \<rparr>]"
  using assms
  by (auto simp add: saveResponseTx_def Let_def split: prod.splits if_splits sum.splits)

lemma save_response_uses_reader:
  assumes "MDMWindowsSaveResponse c reader attempts deviceID fullResponse = Inr d'"
  shows "\<exists>enrollment pre a post.
           MDMWindowsGetEnrolledDeviceWithDeviceID reader deviceID = Inr enrollment
         \<and> attempts = pre @ a # post \<and> list_all conflict pre \<and> \<not> conflict a
         \<and> saveResponseTx c enrollment fullResponse (seen a) = Inr d'
         \<and> (windows_mdm_responses d' = windows_mdm_responses (seen a)
            \<or> windows_mdm_responses d' = windows_mdm_responses (seen a) @
                 [\<lparr> resp_id = windows_mdm_responses_auto_increment (seen a),
                    resp_enrollment_id = mwe_id enrollment,
                    raw_response = Raw fullResponse \<rparr>])"
proof -
  from assms obtain enrollment where
    e: "MDMWindowsGetEnrolledDeviceWithDeviceID reader deviceID = Inr enrollment"
    and r: "withRetryTxx (saveResponseTx c enrollment fullResponse) attempts = Inr d'"
    by (auto simp add: MDMWindowsSaveResponse_def split: if_splits sum.splits)
  from withRetryTxx_first[OF r] obtain pre a post where
    a: "attempts = pre @ a # post" "list_all conflict pre" "\<not> conflict a"
       "saveResponseTx c enrollment fullResponse (seen a) = Inr d'"
    by blast
  from saveResponseTx_response_row[OF a(4)] e a show ?thesis by blast
qed

text \<open>
  C4 (as the code has it). The enrollment is resolved once, from the reader, before the
  retrying transaction starts, and every attempt of the transaction reuses it. When the
  reader does not find the device, the call fails with that error and no attempt runs.
  Otherwise the call is the retrying transaction run with the reader's enrollment: a
  committed state is that of the first attempt without a conflict, run with that
  enrollment on the state the attempt sees, and the response row it stores carries that
  enrollment's id. The transaction never reads \<open>mdm_windows_enrollments\<close>: whatever
  enrollments table the attempts see (\<open>g\<close> replaces it, attempt by attempt), the
  outcome is the same outside that table, which the function does not write.
\<close>

theorem enrollment_resolved_before_transaction:
  "(length (Raw fullResponse) > 0
      \<and> MDMWindowsGetEnrolledDeviceWithDeviceID reader deviceID = Inl e
    \<longrightarrow> MDMWindowsSaveResponse c reader attempts deviceID fullResponse = Inl e)
   \<and> (length (Raw fullResponse) > 0
      \<and> MDMWindowsGetEnrolledDeviceWithDeviceID reader deviceID = Inr enrollment
    \<longrightarrow> MDMWindowsSaveResponse c reader attempts deviceID fullResponse
          = withRetryTxx (saveResponseTx c enrollment fullResponse) attempts)
   \<and> (MDMWindowsSaveResponse c reader attempts deviceID fullResponse = Inr d'
    \<longrightarrow> (\<exists>enrollment pre a post.
           MDMWindowsGetEnrolledDeviceWithDeviceID reader deviceID = Inr enrollment
         \<and> attempts = pre @ a # post \<and> list_all conflict pre \<and> \<not> conflict a
         \<and> saveResponseTx c enrollment fullResponse (seen a) = Inr d'
         \<and> (windows_mdm_responses d' = windows_mdm_responses (seen a)
            \<or> windows_mdm_responses d' = windows_mdm_responses (seen a) @
                 [\<lparr> resp_id = windows_mdm_responses_auto_increment (seen a),
                    resp_enrollment_id = mwe_id enrollment,
                    raw_response = Raw fullResponse \<rparr>])))
   \<and> map_sum id (\<lambda>d. d\<lparr> mdm_windows_enrollments := [] \<rparr>)
       (MDMWindowsSaveResponse c reader
          (map (\<lambda>a. a\<lparr> seen := (seen a)\<lparr> mdm_windows_enrollments := g (seen a) \<rparr> \<rparr>) attempts)
          deviceID fullResponse)
     = map_sum id (\<lambda>d. d\<lparr> mdm_windows_enrollments := [] \<rparr>)
       (MDMWindowsSaveResponse c reader attempts deviceID fullResponse)"
proof (intro conjI impI)
  assume "length (Raw fullResponse) > 0
      \<and> MDMWindowsGetEnrolledDeviceWithDeviceID reader deviceID = Inl e"
  then show "MDMWindowsSaveResponse c reader attempts deviceID fullResponse = Inl e"
    by (simp add: MDMWindowsSaveResponse_def)
next
  assume "length (Raw fullResponse) > 0
      \<and> MDMWindowsGetEnrolledDeviceWithDeviceID reader deviceID = Inr enrollment"
  then show "MDMWindowsSaveResponse c reader attempts deviceID fullResponse
          = withRetryTxx (saveResponseTx c enrollment fullResponse) attempts"
    by (simp add: MDMWindowsSaveResponse_def)
next
  assume "MDMWindowsSaveResponse c reader attempts deviceID fullResponse = Inr d'"
  then show "\<exists>enrollment pre a post.
           MDMWindowsGetEnrolledDeviceWithDeviceID reader deviceID = Inr enrollment
         \<and> attempts = pre @ a # post \<and> list_all conflict pre \<and> \<not> conflict a
         \<and> saveResponseTx c enrollment fullResponse (seen a) = Inr d'
         \<and> (windows_mdm_responses d' = windows_mdm_responses (seen a)
            \<or> windows_mdm_responses d' = windows_mdm_responses (seen a) @
                 [\<lparr> resp_id = windows_mdm_responses_auto_increment (seen a),
                    resp_enrollment_id = mwe_id enrollment,
                    raw_response = Raw fullResponse \<rparr>])"
    by (rule save_response_uses_reader)
next
  show "map_sum id (\<lambda>d. d\<lparr> mdm_windows_enrollments := [] \<rparr>)
       (MDMWindowsSaveResponse c reader
          (map (\<lambda>a. a\<lparr> seen := (seen a)\<lparr> mdm_windows_enrollments := g (seen a) \<rparr> \<rparr>) attempts)
          deviceID fullResponse)
     = map_sum id (\<lambda>d. d\<lparr> mdm_windows_enrollments := [] \<rparr>)
       (MDMWindowsSaveResponse c reader attempts deviceID fullResponse)"
    by (simp add: MDMWindowsSaveResponse_def withRetryTxx_enrollments split: sum.splits)
qed

lemmas save_defs = MDMWindowsSaveResponse_def MDMWindowsGetEnrolledDeviceWithDeviceID_def
  saveResponseTx_def updateMDMWindowsHostProfileStatusFromResponseDB_def upsert_result_def
  same_result_key_def upsert_status_row_def coalesce_def CmdStatus_def CmdResults_def
  CmdAtomic_def Let_def

text \<open>
  C1. A later upsert of a command result should replace the status code and the raw
  result only when the new value is not empty. The code does not: a first response with a
  Status operation (code 200) for a command writes the result row with status code 200
  and an empty result; a second response with only a Results operation for that command
  binds the empty string as the new status code, which is not NULL, so that COALESCE
  takes it. The row then holds the result bytes and an empty status code, not 200.
\<close>

theorem merge_update_overwrites_status_code:
  "(case MDMWindowsSaveResponse
           \<lparr> ShouldBeTracked = (\<lambda>cmd verb. True),
             BuildMDMWindowsProfilePayloadFromMDMResponse =
               (\<lambda>cmd statuses host. Inl (PayloadError ''unused'')),
             xml_Marshal = (\<lambda>cmd. Some ''<Results/>'') \<rparr>
           [\<lparr> mwe_id = 1, mwe_mdm_device_id = ''D1'', mwe_mdm_hardware_id = ''HW1'',
              mwe_host_uuid = ''H1'' \<rparr>]
           [\<lparr> seen =
               \<lparr> mdm_windows_enrollments =
                   [\<lparr> mwe_id = 1, mwe_mdm_device_id = ''D1'', mwe_mdm_hardware_id = ''HW1'',
                      mwe_host_uuid = ''H1'' \<rparr>],
                 windows_mdm_commands =
                   [\<lparr> CommandUUID = ''C1'', RawCommand = ''<Exec/>'', TargetLocURI = ''./x'' \<rparr>],
                 windows_mdm_command_queue = [\<lparr> q_enrollment_id = 1, q_command_uuid = ''C1'' \<rparr>],
                 windows_mdm_responses = [], windows_mdm_responses_auto_increment = 1,
                 windows_mdm_command_results = [], host_mdm_windows_profiles = [],
                 mdm_windows_configuration_profiles = [],
                 mdm_apple_configuration_profiles = [] \<rparr>,
              conflict = False \<rparr>]
           ''D1''
           \<lparr> Raw = ''<SyncML>1</SyncML>'',
             OrderedCmds = [\<lparr> op_Verb = ''Status'',
                op_Cmd = \<lparr> CmdID = ''1'', CmdRef = Some ''C1'', Cmd = Some ''Exec'',
                           Data = Some ''200'' \<rparr> \<rparr>] \<rparr> of
      Inl e \<Rightarrow> None
    | Inr d1 \<Rightarrow>
        (case MDMWindowsSaveResponse
           \<lparr> ShouldBeTracked = (\<lambda>cmd verb. True),
             BuildMDMWindowsProfilePayloadFromMDMResponse =
               (\<lambda>cmd statuses host. Inl (PayloadError ''unused'')),
             xml_Marshal = (\<lambda>cmd. Some ''<Results/>'') \<rparr>
           (mdm_windows_enrollments d1)
           [\<lparr> seen = d1, conflict = False \<rparr>]
           ''D1''
           \<lparr> Raw = ''<SyncML>2</SyncML>'',
             OrderedCmds = [\<lparr> op_Verb = ''Results'',
                op_Cmd = \<lparr> CmdID = ''2'', CmdRef = Some ''C1'', Cmd = None,
                           Data = Some ''x'' \<rparr> \<rparr>] \<rparr> of
           Inl e \<Rightarrow> None
         | Inr d2 \<Rightarrow> Some (windows_mdm_command_results d1, windows_mdm_command_results d2)))
   = Some ([\<lparr> res_enrollment_id = 1, res_command_uuid = ''C1'', raw_result = Some [],
              response_id = 1, status_code = Some ''200'' \<rparr>],
           [\<lparr> res_enrollment_id = 1, res_command_uuid = ''C1'', raw_result = Some ''<Results/>'',
              response_id = 1, status_code = Some [] \<rparr>])"
  by (simp add: save_defs)

text \<open>
  What the dequeue does achieve: in the state a successful transaction commits, no queue
  entry is left for a command that the response referenced in a tracked Status or
  Results operation and that \<open>windows_mdm_commands\<close> holds, whatever the status code
  was.
\<close>

lemma saveResponseTx_dequeues:
  assumes "saveResponseTx c enrollment fullResponse d = Inr d'"
    and "q \<in> set (windows_mdm_command_queue d')"
    and "cmd \<in> set (windows_mdm_commands d)"
    and "CommandUUID cmd \<in> set (fst (incoming_uuids (ShouldBeTracked c) (OrderedCmds fullResponse)
                                        ([], Map.empty, Map.empty)))"
  shows "q_command_uuid q \<noteq> CommandUUID cmd"
  using assms
  by (auto simp add: saveResponseTx_def Let_def filter_empty_conv
        split: prod.splits if_splits sum.splits)

text \<open>
  C2. Processing a device's response should remove that device's queue entries for the
  matched commands and leave the entries of other devices alone. The code does not: with
  one command queued for the enrollments of two devices (ids 1 and 2), after the response
  of the first device with a Status operation for the command, the DELETE, which names
  the command uuids only, has removed the entry of the second device as well, and the
  queue is empty.
\<close>

theorem dequeue_removes_other_devices_entries:
  "map_sum id windows_mdm_command_queue
     (MDMWindowsSaveResponse
        \<lparr> ShouldBeTracked = (\<lambda>cmd verb. True),
          BuildMDMWindowsProfilePayloadFromMDMResponse =
            (\<lambda>cmd statuses host. Inl (PayloadError ''unused'')),
          xml_Marshal = (\<lambda>cmd. Some ''<Results/>'') \<rparr>
        [\<lparr> mwe_id = 1, mwe_mdm_device_id = ''D1'', mwe_mdm_hardware_id = ''HW1'',
           mwe_host_uuid = ''H1'' \<rparr>,
         \<lparr> mwe_id = 2, mwe_mdm_device_id = ''D2'', mwe_mdm_hardware_id = ''HW2'',
           mwe_host_uuid = ''H2'' \<rparr>]
        [\<lparr> seen =
            \<lparr> mdm_windows_enrollments =
                [\<lparr> mwe_id = 1, mwe_mdm_device_id = ''D1'', mwe_mdm_hardware_id = ''HW1'',
                   mwe_host_uuid = ''H1'' \<rparr>,
                 \<lparr> mwe_id = 2, mwe_mdm_device_id = ''D2'', mwe_mdm_hardware_id = ''HW2'',
                   mwe_host_uuid = ''H2'' \<rparr>],
              windows_mdm_commands =
                [\<lparr> CommandUUID = ''C1'', RawCommand = ''<Exec/>'', TargetLocURI = ''./x'' \<rparr>],
              windows_mdm_command_queue =
                [\<lparr> q_enrollment_id = 1, q_command_uuid = ''C1'' \<rparr>,
                 \<lparr> q_enrollment_id = 2, q_command_uuid = ''C1'' \<rparr>],
              windows_mdm_responses = [], windows_mdm_responses_auto_increment = 1,
              windows_mdm_command_results = [], host_mdm_windows_profiles = [],
              mdm_windows_configuration_profiles = [],
              mdm_apple_configuration_profiles = [] \<rparr>,
           conflict = False \<rparr>]
        ''D1''
        \<lparr> Raw = ''<SyncML>1</SyncML>'',
          OrderedCmds = [\<lparr> op_Verb = ''Status'',
             op_Cmd = \<lparr> CmdID = ''1'', CmdRef = Some ''C1'', Cmd = Some ''Exec'',
                        Data = Some ''200'' \<rparr> \<rparr>] \<rparr>)
   = Inr []"
  by (simp add: save_defs)

theorem enrollment_resolved_before_transaction_witness:
  "(\<exists>enrollment pre a post.
       MDMWindowsGetEnrolledDeviceWithDeviceID
         [\<lparr> mwe_id = 1, mwe_mdm_device_id = ''D1'', mwe_mdm_hardware_id = ''HW1'',
            mwe_host_uuid = ''H1'' \<rparr>] ''D1'' = Inr enrollment
     \<and> [\<lparr> seen =
            \<lparr> mdm_windows_enrollments = [], windows_mdm_commands = [],
              windows_mdm_command_queue = [], windows_mdm_responses = [],
              windows_mdm_responses_auto_increment = 7,
              windows_mdm_command_results = [], host_mdm_windows_profiles = [],
              mdm_windows_configuration_profiles = [],
              mdm_apple_configuration_profiles = [] \<rparr>,
           conflict = True \<rparr>,
         \<lparr> seen =
            \<lparr> mdm_windows_enrollments = [], windows_mdm_commands = [],
              windows_mdm_command_queue = [], windows_mdm_responses = [],
              windows_mdm_responses_auto_increment = 7,
              windows_mdm_command_results = [], host_mdm_windows_profiles = [],
              mdm_windows_configuration_profiles = [],
              mdm_apple_configuration_profiles = [] \<rparr>,
           conflict = False \<rparr>] = pre @ a # post
     \<and> list_all conflict pre \<and> \<not> conflict a
     \<and> saveResponseTx
           \<lparr> ShouldBeTracked = (\<lambda>cmd verb. True),
             BuildMDMWindowsProfilePayloadFromMDMResponse =
               (\<lambda>cmd statuses host. Inl (PayloadError ''unused'')),
             xml_Marshal = (\<lambda>cmd. Some ''<Results/>'') \<rparr>
           enrollment
           \<lparr> Raw = ''<SyncML>1</SyncML>'',
             OrderedCmds = [\<lparr> op_Verb = ''Status'',
                op_Cmd = \<lparr> CmdID = ''1'', CmdRef = Some ''C1'', Cmd = Some ''Exec'',
                           Data = Some ''200'' \<rparr> \<rparr>] \<rparr>
           (seen a)
         = Inr \<lparr> mdm_windows_enrollments = [], windows_mdm_commands = [],
              windows_mdm_command_queue = [],
              windows_mdm_responses =
                [\<lparr> resp_id = 7, resp_enrollment_id = 1, raw_response = ''<SyncML>1</SyncML>'' \<rparr>],
              windows_mdm_responses_auto_increment = 8,
              windows_mdm_command_results = [], host_mdm_windows_profiles = [],
              mdm_windows_configuration_profiles = [],
              mdm_apple_configuration_profiles = [] \<rparr>)
   \<and> MDMWindowsSaveResponse
        \<lparr> ShouldBeTracked = (\<lambda>cmd verb. True),
          BuildMDMWindowsProfilePayloadFromMDMResponse =
            (\<lambda>cmd statuses host. Inl (PayloadError ''unused'')),
          xml_Marshal = (\<lambda>cmd. Some ''<Results/>'') \<rparr>
        []
        [\<lparr> seen =
            \<lparr> mdm_windows_enrollments = [], windows_mdm_commands = [],
              windows_mdm_command_queue = [], windows_mdm_responses = [],
              windows_mdm_responses_auto_increment = 7,
              windows_mdm_command_results = [], host_mdm_windows_profiles = [],
              mdm_windows_configuration_profiles = [],
              mdm_apple_configuration_profiles = [] \<rparr>,
           conflict = False \<rparr>]
        ''D1''
        \<lparr> Raw = ''<SyncML>1</SyncML>'',
          OrderedCmds = [\<lparr> op_Verb = ''Status'',
             op_Cmd = \<lparr> CmdID = ''1'', CmdRef = Some ''C1'', Cmd = Some ''Exec'',
                        Data = Some ''200'' \<rparr> \<rparr>] \<rparr>
      = Inl (NotFound ''D1'')
   \<and> MDMWindowsSaveResponse
        \<lparr> ShouldBeTracked = (\<lambda>cmd verb. True),
          BuildMDMWindowsProfilePayloadFromMDMResponse =
            (\<lambda>cmd statuses host. Inl (PayloadError ''unused'')),
          xml_Marshal = (\<lambda>cmd. Some ''<Results/>'') \<rparr>
        [\<lparr> mwe_id = 1, mwe_mdm_device_id = ''D1'', mwe_mdm_hardware_id = ''HW1'',
           mwe_host_uuid = ''H1'' \<rparr>]
        [\<lparr> seen =
            \<lparr> mdm_windows_enrollments = [], windows_mdm_commands = [],
              windows_mdm_command_queue = [], windows_mdm_responses = [],
              windows_mdm_responses_auto_increment = 7,
              windows_mdm_command_results = [], host_mdm_windows_profiles = [],
              mdm_windows_configuration_profiles = [],
              mdm_apple_configuration_profiles = [] \<rparr>,
           conflict = False \<rparr>]
        ''D1''
        \<lparr> Raw = ''<SyncML>1</SyncML>'',
          OrderedCmds = [\<lparr> op_Verb = ''Status'',
             op_Cmd = \<lparr> CmdID = ''1'', CmdRef = Some ''C1'', Cmd = Some ''Exec'',
                        Data = Some ''200'' \<rparr> \<rparr>] \<rparr>
      = withRetryTxx
          (saveResponseTx
             \<lparr> ShouldBeTracked = (\<lambda>cmd verb. True),
               BuildMDMWindowsProfilePayloadFromMDMResponse =
                 (\<lambda>cmd statuses host. Inl (PayloadError ''unused'')),
               xml_Marshal = (\<lambda>cmd. Some ''<Results/>'') \<rparr>
             \<lparr> mwe_id = 1, mwe_mdm_device_id = ''D1'', mwe_mdm_hardware_id = ''HW1'',
               mwe_host_uuid = ''H1'' \<rparr>
             \<lparr> Raw = ''<SyncML>1</SyncML>'',
               OrderedCmds = [\<lparr> op_Verb = ''Status'',
                  op_Cmd = \<lparr> CmdID = ''1'', CmdRef = Some ''C1'', Cmd = Some ''Exec'',
                             Data = Some ''200'' \<rparr> \<rparr>] \<rparr>)
          [\<lparr> seen =
              \<lparr> mdm_windows_enrollments = [], windows_mdm_commands = [],
                windows_mdm_command_queue = [], windows_mdm_responses = [],
                windows_mdm_responses_auto_increment = 7,
                windows_mdm_command_results = [], host_mdm_windows_profiles = [],
                mdm_windows_configuration_profiles = [],
                mdm_apple_configuration_profiles = [] \<rparr>,
             conflict = False \<rparr>]"
proof -
  let ?c = "\<lparr> ShouldBeTracked = (\<lambda>cmd verb. True),
             BuildMDMWindowsProfilePayloadFromMDMResponse =
               (\<lambda>cmd statuses host. Inl (PayloadError ''unused'')),
             xml_Marshal = (\<lambda>cmd. Some ''<Results/>'') \<rparr>"
  let ?E = "[\<lparr> mwe_id = 1, mwe_mdm_device_id = ''D1'', mwe_mdm_hardware_id = ''HW1'',
            mwe_host_uuid = ''H1'' \<rparr>]"
  let ?d = "\<lparr> mdm_windows_enrollments = [], windows_mdm_commands = [],
              windows_mdm_command_queue = [], windows_mdm_responses = [],
              windows_mdm_responses_auto_increment = 7,
              windows_mdm_command_results = [], host_mdm_windows_profiles = [],
              mdm_windows_configuration_profiles = [],
              mdm_apple_configuration_profiles = [] \<rparr>"
  let ?d' = "\<lparr> mdm_windows_enrollments = [], windows_mdm_commands = [],
              windows_mdm_command_queue = [],
              windows_mdm_responses =
                [\<lparr> resp_id = 7, resp_enrollment_id = 1, raw_response = ''<SyncML>1</SyncML>'' \<rparr>],
              windows_mdm_responses_auto_increment = 8,
              windows_mdm_command_results = [], host_mdm_windows_profiles = [],
              mdm_windows_configuration_profiles = [],
              mdm_apple_configuration_profiles = [] \<rparr>"
  let ?atts = "[\<lparr> seen = ?d, conflict = True \<rparr>, \<lparr> seen = ?d, conflict = False \<rparr>]"
  let ?resp = "\<lparr> Raw = ''<SyncML>1</SyncML>'',
             OrderedCmds = [\<lparr> op_Verb = ''Status'',
                op_Cmd = \<lparr> CmdID = ''1'', CmdRef = Some ''C1'', Cmd = Some ''Exec'',
                           Data = Some ''200'' \<rparr> \<rparr>] \<rparr>"
  have h: "MDMWindowsSaveResponse ?c ?E ?atts ''D1'' ?resp = Inr ?d'"
    by (simp add: save_defs)
  have l: "length (Raw ?resp) > 0
      \<and> MDMWindowsGetEnrolledDeviceWithDeviceID [] ''D1'' = Inl (NotFound ''D1'')"
    by (simp add: MDMWindowsGetEnrolledDeviceWithDeviceID_def)
  from enrollment_resolved_before_transaction
         [where c = ?c and reader = ?E and attempts = ?atts and deviceID = "''D1''"
            and fullResponse = ?resp and d' = ?d'] h
  have A: "\<exists>enrollment pre a post.
           MDMWindowsGetEnrolledDeviceWithDeviceID ?E ''D1'' = Inr enrollment
         \<and> ?atts = pre @ a # post \<and> list_all conflict pre \<and> \<not> conflict a
         \<and> saveResponseTx ?c enrollment ?resp (seen a) = Inr ?d'"
    by blast
  from enrollment_resolved_before_transaction
         [where c = ?c and reader = "[]" and e = "NotFound ''D1''"
            and attempts = "[\<lparr> seen = ?d, conflict = False \<rparr>]" and deviceID = "''D1''"
            and fullResponse = ?resp] l
  have B: "MDMWindowsSaveResponse ?c [] [\<lparr> seen = ?d, conflict = False \<rparr>] ''D1'' ?resp
             = Inl (NotFound ''D1'')"
    by blast
  have l2: "length (Raw ?resp) > 0
      \<and> MDMWindowsGetEnrolledDeviceWithDeviceID ?E ''D1''
          = Inr \<lparr> mwe_id = 1, mwe_mdm_device_id = ''D1'', mwe_mdm_hardware_id = ''HW1'',
                   mwe_host_uuid = ''H1'' \<rparr>"
    by (simp add: MDMWindowsGetEnrolledDeviceWithDeviceID_def)
  from enrollment_resolved_before_transaction
         [where c = ?c and reader = ?E
            and enrollment = "\<lparr> mwe_id = 1, mwe_mdm_device_id = ''D1'',
                                mwe_mdm_hardware_id = ''HW1'', mwe_host_uuid = ''H1'' \<rparr>"
            and attempts = "[\<lparr> seen = ?d, conflict = False \<rparr>]" and deviceID = "''D1''"
            and fullResponse = ?resp] l2
  have C: "MDMWindowsSaveResponse ?c ?E [\<lparr> seen = ?d, conflict = False \<rparr>] ''D1'' ?resp
             = withRetryTxx
                 (saveResponseTx ?c
                    \<lparr> mwe_id = 1, mwe_mdm_device_id = ''D1'', mwe_mdm_hardware_id = ''HW1'',
                      mwe_host_uuid = ''H1'' \<rparr> ?resp)
                 [\<lparr> seen = ?d, conflict = False \<rparr>]"
    by blast
  from A B C show ?thesis by (intro conjI)
qed

text \<open>
  The claim as stated fails on the code. The reader resolves device D1 to enrollment 1.
  The first attempt of the transaction meets a conflict; by the second attempt enrollment
  1 has taken another device id and device D1 is enrollment 2, which a lookup at the start
  of that attempt would find. The response and the command result are stored under
  enrollment 1, a row that still exists.
\<close>

theorem stale_enrollment_counterexample:
  "map_sum id
     (\<lambda>d. (map resp_enrollment_id (windows_mdm_responses d),
            map res_enrollment_id (windows_mdm_command_results d),
            map_sum id mwe_id
              (MDMWindowsGetEnrolledDeviceWithDeviceID (mdm_windows_enrollments d) ''D1''),
            map mwe_id (mdm_windows_enrollments d)))
     (MDMWindowsSaveResponse
        \<lparr> ShouldBeTracked = (\<lambda>cmd verb. True),
          BuildMDMWindowsProfilePayloadFromMDMResponse =
            (\<lambda>cmd statuses host. Inl (PayloadError ''unused'')),
          xml_Marshal = (\<lambda>cmd. Some ''<Results/>'') \<rparr>
        [\<lparr> mwe_id = 1, mwe_mdm_device_id = ''D1'', mwe_mdm_hardware_id = ''HW1'',
           mwe_host_uuid = ''H1'' \<rparr>]
        [\<lparr> seen =
            \<lparr> mdm_windows_enrollments =
                [\<lparr> mwe_id = 1, mwe_mdm_device_id = ''D1'', mwe_mdm_hardware_id = ''HW1'',
                   mwe_host_uuid = ''H1'' \<rparr>],
              windows_mdm_commands =
                [\<lparr> CommandUUID = ''C1'', RawCommand = ''<Exec/>'', TargetLocURI = ''./x'' \<rparr>],
              windows_mdm_command_queue = [\<lparr> q_enrollment_id = 1, q_command_uuid = ''C1'' \<rparr>],
              windows_mdm_responses = [], windows_mdm_responses_auto_increment = 1,
              windows_mdm_command_results = [], host_mdm_windows_profiles = [],
              mdm_windows_configuration_profiles = [],
              mdm_apple_configuration_profiles = [] \<rparr>,
           conflict = True \<rparr>,
         \<lparr> seen =
            \<lparr> mdm_windows_enrollments =
                [\<lparr> mwe_id = 1, mwe_mdm_device_id = ''D7'', mwe_mdm_hardware_id = ''HW1'',
                   mwe_host_uuid = ''H1'' \<rparr>,
                 \<lparr> mwe_id = 2, mwe_mdm_device_id = ''D1'', mwe_mdm_hardware_id = ''HW2'',
                   mwe_host_uuid = ''H2'' \<rparr>],
              windows_mdm_commands =
                [\<lparr> CommandUUID = ''C1'', RawCommand = ''<Exec/>'', TargetLocURI = ''./x'' \<rparr>],
              windows_mdm_command_queue = [\<lparr> q_enrollment_id = 1, q_command_uuid = ''C1'' \<rparr>],
              windows_mdm_responses = [], windows_mdm_responses_auto_increment = 1,
              windows_mdm_command_results = [], host_mdm_windows_profiles = [],
              mdm_windows_configuration_profiles = [],
              mdm_apple_configuration_profiles = [] \<rparr>,
           conflict = False \<rparr>]
        ''D1''
        \<lparr> Raw = ''<SyncML>1</SyncML>'',
          OrderedCmds = [\<lparr> op_Verb = ''Status'',
             op_Cmd = \<lparr> CmdID = ''1'', CmdRef = Some ''C1'', Cmd = Some ''Exec'',
                        Data = Some ''200'' \<rparr> \<rparr>] \<rparr>)
   = Inr ([1], [1], Inr 2, [1, 2])"
  by (simp add: save_defs)

theorem response_never_inserts_host_profiles_witness:
  "updateMDMWindowsHostProfileStatusFromResponseDB
     [\<lparr> pp_ProfileUUID = [], pp_ProfileName = [], pp_HostUUID = ''H1'',
        pp_Status = Some ''verifying'', pp_OperationType = [], pp_Detail = [],
        pp_CommandUUID = ''C1'' \<rparr>]
     [\<lparr> hmwp_host_uuid = ''H1'', hmwp_profile_uuid = ''P1'', hmwp_status = Some ''pending'',
        hmwp_operation_type = Some ''install'', hmwp_detail = Some [],
        hmwp_command_uuid = ''C1'', hmwp_profile_name = ''n'' \<rparr>]
   = Inr [\<lparr> hmwp_host_uuid = ''H1'', hmwp_profile_uuid = ''P1'', hmwp_status = Some ''verifying'',
        hmwp_operation_type = Some ''install'', hmwp_detail = Some [],
        hmwp_command_uuid = ''C1'', hmwp_profile_name = ''n'' \<rparr>]
   \<and> map_sum id (\<lambda>d. map (\<lambda>r. (hmwp_host_uuid r, hmwp_profile_uuid r)) (host_mdm_windows_profiles d))
     (MDMWindowsSaveResponse
        \<lparr> ShouldBeTracked = (\<lambda>cmd verb. True),
          BuildMDMWindowsProfilePayloadFromMDMResponse =
            (\<lambda>cmd statuses host. Inr
               \<lparr> pp_ProfileUUID = [], pp_ProfileName = [], pp_HostUUID = host,
                 pp_Status = Some ''verifying'', pp_OperationType = [], pp_Detail = [],
                 pp_CommandUUID = CommandUUID cmd \<rparr>),
          xml_Marshal = (\<lambda>cmd. Some ''<Results/>'') \<rparr>
        [\<lparr> mwe_id = 1, mwe_mdm_device_id = ''D1'', mwe_mdm_hardware_id = ''HW1'',
           mwe_host_uuid = ''H1'' \<rparr>]
        [\<lparr> seen =
            \<lparr> mdm_windows_enrollments =
                [\<lparr> mwe_id = 1, mwe_mdm_device_id = ''D1'', mwe_mdm_hardware_id = ''HW1'',
                   mwe_host_uuid = ''H1'' \<rparr>],
              windows_mdm_commands =
                [\<lparr> CommandUUID = ''C1'', RawCommand = ''<Atomic/>'', TargetLocURI = ''./x'' \<rparr>],
              windows_mdm_command_queue = [\<lparr> q_enrollment_id = 1, q_command_uuid = ''C1'' \<rparr>],
              windows_mdm_responses = [], windows_mdm_responses_auto_increment = 1,
              windows_mdm_command_results = [],
              host_mdm_windows_profiles =
                [\<lparr> hmwp_host_uuid = ''H1'', hmwp_profile_uuid = ''P1'',
                   hmwp_status = Some ''pending'', hmwp_operation_type = Some ''install'',
                   hmwp_detail = Some [], hmwp_command_uuid = ''C1'', hmwp_profile_name = ''n'' \<rparr>],
              mdm_windows_configuration_profiles = [],
              mdm_apple_configuration_profiles = [] \<rparr>,
           conflict = False \<rparr>]
        ''D1''
        \<lparr> Raw = ''<SyncML>1</SyncML>'',
          OrderedCmds = [\<lparr> op_Verb = ''Status'',
             op_Cmd = \<lparr> CmdID = ''1'', CmdRef = Some ''C1'', Cmd = Some ''Atomic'',
                        Data = Some ''200'' \<rparr> \<rparr>] \<rparr>)
   = Inr [(''H1'', ''P1'')]"
proof -
  let ?c = "\<lparr> ShouldBeTracked = (\<lambda>cmd verb. True),
          BuildMDMWindowsProfilePayloadFromMDMResponse =
            (\<lambda>cmd statuses host. Inr
               \<lparr> pp_ProfileUUID = [], pp_ProfileName = [], pp_HostUUID = host,
                 pp_Status = Some ''verifying'', pp_OperationType = [], pp_Detail = [],
                 pp_CommandUUID = CommandUUID cmd \<rparr>),
          xml_Marshal = (\<lambda>cmd. Some ''<Results/>'') \<rparr>"
  let ?E = "[\<lparr> mwe_id = 1, mwe_mdm_device_id = ''D1'', mwe_mdm_hardware_id = ''HW1'',
           mwe_host_uuid = ''H1'' \<rparr>]"
  let ?row = "\<lparr> hmwp_host_uuid = ''H1'', hmwp_profile_uuid = ''P1'',
                   hmwp_status = Some ''pending'', hmwp_operation_type = Some ''install'',
                   hmwp_detail = Some [], hmwp_command_uuid = ''C1'', hmwp_profile_name = ''n'' \<rparr>"
  let ?row' = "?row\<lparr> hmwp_status := Some ''verifying'' \<rparr>"
  let ?d = "\<lparr> mdm_windows_enrollments = ?E,
              windows_mdm_commands =
                [\<lparr> CommandUUID = ''C1'', RawCommand = ''<Atomic/>'', TargetLocURI = ''./x'' \<rparr>],
              windows_mdm_command_queue = [\<lparr> q_enrollment_id = 1, q_command_uuid = ''C1'' \<rparr>],
              windows_mdm_responses = [], windows_mdm_responses_auto_increment = 1,
              windows_mdm_command_results = [],
              host_mdm_windows_profiles = [?row],
              mdm_windows_configuration_profiles = [],
              mdm_apple_configuration_profiles = [] \<rparr>"
  let ?resp = "\<lparr> Raw = ''<SyncML>1</SyncML>'',
          OrderedCmds = [\<lparr> op_Verb = ''Status'',
             op_Cmd = \<lparr> CmdID = ''1'', CmdRef = Some ''C1'', Cmd = Some ''Atomic'',
                        Data = Some ''200'' \<rparr> \<rparr>] \<rparr>"
  let ?pp = "\<lparr> pp_ProfileUUID = [], pp_ProfileName = [], pp_HostUUID = ''H1'',
        pp_Status = Some ''verifying'', pp_OperationType = [], pp_Detail = [],
        pp_CommandUUID = ''C1'' \<rparr>"
  let ?d' = "?d\<lparr> windows_mdm_command_queue := [],
                windows_mdm_responses :=
                  [\<lparr> resp_id = 1, resp_enrollment_id = 1, raw_response = ''<SyncML>1</SyncML>'' \<rparr>],
                windows_mdm_responses_auto_increment := 2,
                windows_mdm_command_results :=
                  [\<lparr> res_enrollment_id = 1, res_command_uuid = ''C1'', raw_result = Some [],
                     response_id = 1, status_code = Some ''200'' \<rparr>],
                host_mdm_windows_profiles := [?row'] \<rparr>"
  have u: "updateMDMWindowsHostProfileStatusFromResponseDB [?pp] [?row] = Inr [?row']"
    by (simp add: save_defs)
  have s: "MDMWindowsSaveResponse ?c ?E [\<lparr> seen = ?d, conflict = False \<rparr>] ''D1'' ?resp = Inr ?d'"
    by (simp add: save_defs)
  from response_never_inserts_host_profiles
         [where payloads = "[?pp]" and hmwps = "[?row]" and hmwps' = "[?row']"
            and c = ?c and reader = ?E and attempts = "[\<lparr> seen = ?d, conflict = False \<rparr>]"
            and deviceID = "''D1''" and fullResponse = ?resp and d' = ?d']
       u s
  have "map (\<lambda>r. (hmwp_host_uuid r, hmwp_profile_uuid r)) (host_mdm_windows_profiles ?d')
           = map (\<lambda>r. (hmwp_host_uuid r, hmwp_profile_uuid r)) (host_mdm_windows_profiles ?d)"
    by simp
  with u s show ?thesis by simp
qed

section \<open>Setting profiles pending\<close>

lemma run_batches_eq:
  assumes app: "\<And>xs ys s. exec (xs @ ys) s = exec ys (exec xs s)" and nil: "\<And>s. exec [] s = s"
  shows "run_batches n exec batch ps s = exec (batch @ ps) s"
proof (induction ps arbitrary: batch s)
  case Nil
  then show ?case by (cases batch) (simp_all add: nil)
next
  case (Cons p ps)
  have "exec ps (exec (batch @ [p]) s) = exec (batch @ p # ps) s"
    using app[of "batch @ [p]" ps s] by simp
  with Cons show ?case by simp
qed

lemma executeDeleteBatch_append:
  "executeDeleteBatch (xs @ ys) t = executeDeleteBatch ys (executeDeleteBatch xs t)"
  by (auto simp add: executeDeleteBatch_def intro: filter_cong)

lemma bulkDelete_eq:
  "bulkDeleteMDMWindowsHostsConfigProfilesDB n profs t = executeDeleteBatch profs t"
proof (cases profs)
  case Nil
  then show ?thesis
    by (simp add: bulkDeleteMDMWindowsHostsConfigProfilesDB_def executeDeleteBatch_def)
next
  case (Cons p ps)
  have "run_batches (batch_size n) executeDeleteBatch [] profs t = executeDeleteBatch ([] @ profs) t"
    by (rule run_batches_eq) (simp_all add: executeDeleteBatch_append, simp add: executeDeleteBatch_def)
  with Cons show ?thesis
    by (simp add: bulkDeleteMDMWindowsHostsConfigProfilesDB_def)
qed

lemma upsert_batches_eq:
  "run_batches n (executeUpsertBatch dd) [] ps t = fold (upsert_pending_row dd) ps t"
proof -
  have "run_batches n (executeUpsertBatch dd) [] ps t = executeUpsertBatch dd ([] @ ps) t"
    by (rule run_batches_eq) (simp_all add: executeUpsertBatch_def)
  then show ?thesis by (simp add: executeUpsertBatch_def)
qed

lemma bulkSetPending_eq:
  assumes "uuids \<noteq> []"
    and "listMDMWindowsProfilesToRemoveDB mwcps hs mwes t uuids = Inr toRemove"
  shows "bulkSetPendingMDMWindowsHostProfilesDB dd n1 n2 mwcps hs mwes uuids t =
     Inr (fold (upsert_pending_row dd)
            (listMDMWindowsProfilesToInstallDB mwcps hs mwes t uuids)
            (executeDeleteBatch toRemove t))"
  using assms
  by (auto simp add: bulkSetPendingMDMWindowsHostProfilesDB_def Let_def bulkDelete_eq
        upsert_batches_eq executeDeleteBatch_def)

lemma same_key_iff:
  "same_key p r \<longleftrightarrow> (hmwp_host_uuid r, hmwp_profile_uuid r) = (pp_HostUUID p, pp_ProfileUUID p)"
  by (auto simp add: same_key_def)

lemma upsert_hit:
  assumes "list_ex (same_key p) t"
  shows "upsert_pending_row dd p t =
           map (\<lambda>r. if same_key p r
                     then r\<lparr> hmwp_operation_type := Some MDMOperationTypeInstall,
                             hmwp_status := None,
                             hmwp_command_uuid := [],
                             hmwp_detail := Some [] \<rparr>
                     else r) t"
  using assms by (simp add: upsert_pending_row_def)

lemma upsert_miss:
  assumes "\<not> list_ex (same_key p) t"
  shows "upsert_pending_row dd p t =
           t @ [\<lparr> hmwp_host_uuid = pp_HostUUID p, hmwp_profile_uuid = pp_ProfileUUID p,
                  hmwp_status = None, hmwp_operation_type = Some MDMOperationTypeInstall,
                  hmwp_detail = dd, hmwp_command_uuid = [],
                  hmwp_profile_name = pp_ProfileName p \<rparr>]"
  using assms by (simp add: upsert_pending_row_def)

lemma updated_row_reset:
  "reset_for_dispatch dd (r\<lparr> hmwp_operation_type := Some MDMOperationTypeInstall,
                             hmwp_status := None,
                             hmwp_command_uuid := [],
                             hmwp_detail := Some [] \<rparr>)"
  by (simp add: reset_for_dispatch_def)

lemma updated_row_key:
  "same_key p (r\<lparr> hmwp_operation_type := a, hmwp_status := b,
                   hmwp_command_uuid := c, hmwp_detail := d \<rparr>) = same_key p r"
  by (simp add: same_key_def)

lemma upsert_rows:
  assumes "r \<in> set (upsert_pending_row dd p t)"
  shows "(r \<in> set t \<and> \<not> same_key p r) \<or> (reset_for_dispatch dd r \<and> same_key p r)"
proof (cases "list_ex (same_key p) t")
  case True
  from assms obtain r0 where r0: "r0 \<in> set t"
    and r: "r = (if same_key p r0
                     then r0\<lparr> hmwp_operation_type := Some MDMOperationTypeInstall,
                             hmwp_status := None,
                             hmwp_command_uuid := [],
                             hmwp_detail := Some [] \<rparr>
                     else r0)"
    unfolding upsert_hit[OF True] by auto
  show ?thesis
  proof (cases "same_key p r0")
    case True
    with r show ?thesis by (simp add: updated_row_reset updated_row_key)
  next
    case False
    with r r0 show ?thesis by simp
  qed
next
  case False
  then have no: "\<forall>x \<in> set t. \<not> same_key p x" by (simp add: list_ex_iff)
  from assms have "r \<in> set t \<or> r = \<lparr> hmwp_host_uuid = pp_HostUUID p, hmwp_profile_uuid = pp_ProfileUUID p,
                  hmwp_status = None, hmwp_operation_type = Some MDMOperationTypeInstall,
                  hmwp_detail = dd, hmwp_command_uuid = [],
                  hmwp_profile_name = pp_ProfileName p \<rparr>"
    unfolding upsert_miss[OF False] by auto
  then show ?thesis
  proof
    assume "r \<in> set t"
    with no show ?thesis by blast
  next
    assume "r = \<lparr> hmwp_host_uuid = pp_HostUUID p, hmwp_profile_uuid = pp_ProfileUUID p,
                  hmwp_status = None, hmwp_operation_type = Some MDMOperationTypeInstall,
                  hmwp_detail = dd, hmwp_command_uuid = [],
                  hmwp_profile_name = pp_ProfileName p \<rparr>"
    then show ?thesis by (simp add: reset_for_dispatch_def same_key_def)
  qed
qed

lemma upsert_keeps_key:
  assumes "r \<in> set t"
  shows "\<exists>r' \<in> set (upsert_pending_row dd p t).
           (hmwp_host_uuid r', hmwp_profile_uuid r') = (hmwp_host_uuid r, hmwp_profile_uuid r)"
proof (cases "list_ex (same_key p) t")
  case True
  let ?f = "\<lambda>r. if same_key p r
                     then r\<lparr> hmwp_operation_type := Some MDMOperationTypeInstall,
                             hmwp_status := None,
                             hmwp_command_uuid := [],
                             hmwp_detail := Some [] \<rparr>
                     else r"
  have "?f r \<in> set (upsert_pending_row dd p t)"
    unfolding upsert_hit[OF True] set_map using assms by (rule imageI)
  moreover have "(hmwp_host_uuid (?f r), hmwp_profile_uuid (?f r)) = (hmwp_host_uuid r, hmwp_profile_uuid r)"
    by simp
  ultimately show ?thesis by (rule bexI[rotated])
next
  case False
  have "r \<in> set (upsert_pending_row dd p t)"
    unfolding upsert_miss[OF False] using assms by simp
  then show ?thesis by (rule bexI[rotated]) simp
qed

lemma upsert_has: "\<exists>r \<in> set (upsert_pending_row dd p t). same_key p r"
proof (cases "list_ex (same_key p) t")
  case True
  then obtain r where r: "r \<in> set t" "same_key p r" by (auto simp add: list_ex_iff)
  from upsert_keeps_key[OF r(1), of dd p] r(2) show ?thesis
    by (auto simp add: same_key_def)
next
  case False
  show ?thesis unfolding upsert_miss[OF False] by (simp add: same_key_def)
qed

lemma upsert_keeps_row:
  assumes "r \<in> set t" and "\<not> same_key p r"
  shows "r \<in> set (upsert_pending_row dd p t)"
proof (cases "list_ex (same_key p) t")
  case True
  from assms show ?thesis unfolding upsert_hit[OF True] by (auto simp add: image_iff)
next
  case False
  from assms show ?thesis unfolding upsert_miss[OF False] by simp
qed

lemma fold_upsert_rows:
  assumes "r \<in> set (fold (upsert_pending_row dd) ps t)"
  shows "(r \<in> set t \<and> (hmwp_host_uuid r, hmwp_profile_uuid r) \<notin> payload_pairs ps)
       \<or> (reset_for_dispatch dd r \<and> (hmwp_host_uuid r, hmwp_profile_uuid r) \<in> payload_pairs ps)"
  using assms
proof (induction ps arbitrary: t)
  case Nil
  then show ?case by (simp add: payload_pairs_def)
next
  case (Cons p ps)
  from Cons.prems have "r \<in> set (fold (upsert_pending_row dd) ps (upsert_pending_row dd p t))"
    by simp
  from Cons.IH[OF this] upsert_rows[of r dd p t]
  show ?case by (auto simp add: payload_pairs_def same_key_iff)
qed

lemma fold_upsert_keeps_key:
  assumes "r \<in> set t"
  shows "\<exists>r' \<in> set (fold (upsert_pending_row dd) ps t).
           (hmwp_host_uuid r', hmwp_profile_uuid r') = (hmwp_host_uuid r, hmwp_profile_uuid r)"
  using assms
proof (induction ps arbitrary: t r)
  case Nil
  then show ?case by auto
next
  case (Cons p ps)
  from upsert_keeps_key[OF Cons.prems, of dd p] obtain r1 where
    r1: "r1 \<in> set (upsert_pending_row dd p t)"
    "(hmwp_host_uuid r1, hmwp_profile_uuid r1) = (hmwp_host_uuid r, hmwp_profile_uuid r)"
    by blast
  from Cons.IH[OF r1(1)] r1(2) show ?case by auto
qed

lemma fold_upsert_has:
  assumes "k \<in> payload_pairs ps"
  shows "\<exists>r \<in> set (fold (upsert_pending_row dd) ps t). (hmwp_host_uuid r, hmwp_profile_uuid r) = k"
  using assms
proof (induction ps arbitrary: t)
  case Nil
  then show ?case by (simp add: payload_pairs_def)
next
  case (Cons p ps)
  show ?case
  proof (cases "k \<in> payload_pairs ps")
    case True
    from Cons.IH[OF True, of "upsert_pending_row dd p t"] show ?thesis by simp
  next
    case False
    with Cons.prems have k: "k = (pp_HostUUID p, pp_ProfileUUID p)"
      by (auto simp add: payload_pairs_def)
    from upsert_has[of dd p t] obtain r where
      r: "r \<in> set (upsert_pending_row dd p t)" "same_key p r" by blast
    from fold_upsert_keeps_key[OF r(1), of dd ps] r(2) k show ?thesis
      by (auto simp add: same_key_iff)
  qed
qed

lemma fold_upsert_keeps_row:
  assumes "r \<in> set t" and "(hmwp_host_uuid r, hmwp_profile_uuid r) \<notin> payload_pairs ps"
  shows "r \<in> set (fold (upsert_pending_row dd) ps t)"
  using assms
proof (induction ps arbitrary: t)
  case Nil
  then show ?case by simp
next
  case (Cons p ps)
  from Cons.prems(2) have np: "\<not> same_key p r"
    and nps: "(hmwp_host_uuid r, hmwp_profile_uuid r) \<notin> payload_pairs ps"
    by (auto simp add: payload_pairs_def same_key_iff)
  from upsert_keeps_row[OF Cons.prems(1) np] have "r \<in> set (upsert_pending_row dd p t)" .
  from Cons.IH[OF this nps] show ?case by simp
qed



text \<open>Upserting rows that are all present and reset only sets their detail to the empty string.\<close>

lemma reset_row_update:
  assumes "reset_for_dispatch dd r"
  shows "r\<lparr> hmwp_operation_type := Some MDMOperationTypeInstall, hmwp_status := None,
           hmwp_command_uuid := [], hmwp_detail := Some [] \<rparr> = r\<lparr> hmwp_detail := Some [] \<rparr>"
proof -
  from assms have "hmwp_operation_type r = Some MDMOperationTypeInstall"
    "hmwp_status r = None" "hmwp_command_uuid r = []"
    by (simp_all add: reset_for_dispatch_def)
  then show ?thesis by (cases r) simp
qed

lemma upsert_reset:
  assumes ex: "\<exists>r \<in> set t. same_key p r"
    and rs: "\<forall>r \<in> set t. same_key p r \<longrightarrow> reset_for_dispatch dd r"
  shows "upsert_pending_row dd p t =
           map (\<lambda>r. if same_key p r then r\<lparr> hmwp_detail := Some [] \<rparr> else r) t"
proof -
  from ex have "list_ex (same_key p) t" by (simp add: list_ex_iff)
  then have "upsert_pending_row dd p t = map (\<lambda>r. if same_key p r
                     then r\<lparr> hmwp_operation_type := Some MDMOperationTypeInstall,
                             hmwp_status := None,
                             hmwp_command_uuid := [],
                             hmwp_detail := Some [] \<rparr>
                     else r) t"
    by (rule upsert_hit)
  also have "\<dots> = map (\<lambda>r. if same_key p r then r\<lparr> hmwp_detail := Some [] \<rparr> else r) t"
  proof (rule map_cong[OF refl])
    fix r assume "r \<in> set t"
    with rs have "same_key p r \<Longrightarrow> reset_for_dispatch dd r" by blast
    then show "(if same_key p r
                     then r\<lparr> hmwp_operation_type := Some MDMOperationTypeInstall,
                             hmwp_status := None,
                             hmwp_command_uuid := [],
                             hmwp_detail := Some [] \<rparr>
                     else r) = (if same_key p r then r\<lparr> hmwp_detail := Some [] \<rparr> else r)"
      by (cases "same_key p r") (simp_all add: reset_row_update)
  qed
  finally show ?thesis .
qed

lemma detail_update_keeps:
  "same_key p' (r\<lparr> hmwp_detail := d \<rparr>) = same_key p' r"
  "reset_for_dispatch dd r \<Longrightarrow> reset_for_dispatch dd (r\<lparr> hmwp_detail := Some [] \<rparr>)"
  by (simp_all add: same_key_def reset_for_dispatch_def)

lemma fold_upsert_reset:
  assumes "\<forall>p \<in> set ps. (\<exists>r \<in> set t. same_key p r)
                        \<and> (\<forall>r \<in> set t. same_key p r \<longrightarrow> reset_for_dispatch dd r)"
  shows "fold (upsert_pending_row dd) ps t =
           map (\<lambda>r. if (hmwp_host_uuid r, hmwp_profile_uuid r) \<in> payload_pairs ps
                     then r\<lparr> hmwp_detail := Some [] \<rparr> else r) t"
  using assms
proof (induction ps arbitrary: t)
  case Nil
  then show ?case by (simp add: payload_pairs_def)
next
  case (Cons p ps)
  let ?f = "\<lambda>r. if same_key p r then r\<lparr> hmwp_detail := Some [] \<rparr> else r"
  from Cons.prems have ex: "\<exists>r \<in> set t. same_key p r"
    and rs: "\<forall>r \<in> set t. same_key p r \<longrightarrow> reset_for_dispatch dd r"
    by simp_all
  have u: "upsert_pending_row dd p t = map ?f t"
    by (rule upsert_reset[OF ex rs])
  have fk: "same_key p' (?f r) = same_key p' r" for p' r
    by (simp add: detail_update_keeps)
  have pre: "\<forall>p' \<in> set ps. (\<exists>r \<in> set (map ?f t). same_key p' r)
                        \<and> (\<forall>r \<in> set (map ?f t). same_key p' r \<longrightarrow> reset_for_dispatch dd r)"
  proof
    fix p' assume p': "p' \<in> set ps"
    with Cons.prems obtain r where r: "r \<in> set t" "same_key p' r" by auto
    have "?f r \<in> set (map ?f t)" unfolding set_map using r(1) by (rule imageI)
    moreover have "same_key p' (?f r)" using r(2) by (simp only: fk)
    ultimately have a: "\<exists>r \<in> set (map ?f t). same_key p' r" by blast
    have b: "\<forall>r \<in> set (map ?f t). same_key p' r \<longrightarrow> reset_for_dispatch dd r"
    proof (intro ballI impI)
      fix x assume x: "x \<in> set (map ?f t)" "same_key p' x"
      then obtain r where r: "r \<in> set t" "x = ?f r" by auto
      with x(2) have "same_key p' r" by (simp only: fk)
      with Cons.prems p' r(1) have rr: "reset_for_dispatch dd r" by auto
      show "reset_for_dispatch dd x"
        unfolding r(2) using rr by (simp add: detail_update_keeps)
    qed
    from a b show "(\<exists>r \<in> set (map ?f t). same_key p' r)
                        \<and> (\<forall>r \<in> set (map ?f t). same_key p' r \<longrightarrow> reset_for_dispatch dd r)"
      by blast
  qed
  have "fold (upsert_pending_row dd) (p # ps) t = fold (upsert_pending_row dd) ps (map ?f t)"
    by (simp add: u)
  also have "\<dots> = map (\<lambda>r. if (hmwp_host_uuid r, hmwp_profile_uuid r) \<in> payload_pairs ps
                     then r\<lparr> hmwp_detail := Some [] \<rparr> else r) (map ?f t)"
    by (rule Cons.IH[OF pre])
  also have "\<dots> = map (\<lambda>r. if (hmwp_host_uuid r, hmwp_profile_uuid r) \<in> payload_pairs (p # ps)
                     then r\<lparr> hmwp_detail := Some [] \<rparr> else r) t"
  proof -
    have pp: "payload_pairs (p # ps) = insert (pp_HostUUID p, pp_ProfileUUID p) (payload_pairs ps)"
      by (simp add: payload_pairs_def)
    have "(if (hmwp_host_uuid (?f r), hmwp_profile_uuid (?f r)) \<in> payload_pairs ps
             then (?f r)\<lparr> hmwp_detail := Some [] \<rparr> else ?f r)
        = (if (hmwp_host_uuid r, hmwp_profile_uuid r) \<in> payload_pairs (p # ps)
             then r\<lparr> hmwp_detail := Some [] \<rparr> else r)" for r
      unfolding pp by (cases "same_key p r") (auto simp add: same_key_iff)
    then show ?thesis by (simp add: comp_def)
  qed
  finally show ?case .
qed

lemma executeDeleteBatch_pairs:
  "executeDeleteBatch ps t =
     filter (\<lambda>r. (hmwp_host_uuid r, hmwp_profile_uuid r) \<notin> payload_pairs ps) t"
  unfolding executeDeleteBatch_def
  by (rule filter_cong) (auto simp add: payload_pairs_def image_iff)

lemma bulkSetPending_Inr:
  assumes "bulkSetPendingMDMWindowsHostProfilesDB dd n1 n2 mwcps hs mwes uuids t = Inr t1"
    and "uuids \<noteq> []"
  shows "\<exists>toRemove. listMDMWindowsProfilesToRemoveDB mwcps hs mwes t uuids = Inr toRemove"
  using assms
  by (cases "listMDMWindowsProfilesToRemoveDB mwcps hs mwes t uuids")
     (simp_all add: bulkSetPendingMDMWindowsHostProfilesDB_def Let_def)

lemma remove_nothing:
  assumes "set (profiles_to_remove_rows mwcps hs mwes t uuids) = {}"
  shows "listMDMWindowsProfilesToRemoveDB mwcps hs mwes t uuids = Inr []"
  using assms by (simp add: listMDMWindowsProfilesToRemoveDB_def)

text \<open>
  The second run after a first run that succeeded: the rows of the first run's install set
  are the second run's install set, nothing is to be removed, and the upsert only sets
  their detail to the empty string.
\<close>

lemma second_run:
  assumes run: "bulkSetPendingMDMWindowsHostProfilesDB dd n1 n2 mwcps hs mwes uuids t = Inr t1"
    and ne: "uuids \<noteq> []"
  shows "bulkSetPendingMDMWindowsHostProfilesDB dd n1 n2 mwcps hs mwes uuids t1 =
           Inr (map (\<lambda>r. if (hmwp_host_uuid r, hmwp_profile_uuid r)
                              \<in> payload_pairs (listMDMWindowsProfilesToInstallDB mwcps hs mwes t uuids)
                           then r\<lparr> hmwp_detail := Some [] \<rparr> else r) t1)
       \<and> (\<forall>r \<in> set t1. (hmwp_host_uuid r, hmwp_profile_uuid r)
                              \<in> payload_pairs (listMDMWindowsProfilesToInstallDB mwcps hs mwes t uuids)
              \<longrightarrow> reset_for_dispatch dd r)"
proof -
  let ?I = "listMDMWindowsProfilesToInstallDB mwcps hs mwes t uuids"
  let ?I2 = "listMDMWindowsProfilesToInstallDB mwcps hs mwes t1 uuids"
  let ?KI = "payload_pairs ?I"
  let ?D = "desired_pairs mwcps hs mwes uuids"
  let ?Dall = "desired_pairs mwcps hs mwes []"
  let ?key = "\<lambda>r. (hmwp_host_uuid r, hmwp_profile_uuid r)"
  from bulkSetPending_Inr[OF run ne] obtain R where
    R: "listMDMWindowsProfilesToRemoveDB mwcps hs mwes t uuids = Inr R" by blast
  let ?t0 = "executeDeleteBatch R t"
  from run have t1: "t1 = fold (upsert_pending_row dd) ?I ?t0"
    unfolding bulkSetPending_eq[OF ne R] by simp
  have KR: "payload_pairs R = {x \<in> actual_pairs t uuids. x \<notin> ?Dall}"
    by (rule remove_pairs[OF R])
  have D: "?D = {x \<in> ?Dall. fst x \<in> set uuids}"
    using desired_pairs_filter[of mwcps hs mwes uuids] ne by simp
  have t0: "set ?t0 = {r \<in> set t. ?key r \<notin> payload_pairs R}"
    by (simp add: executeDeleteBatch_pairs)
  have act: "?key r \<in> actual_pairs t uuids" if "r \<in> set t" "hmwp_host_uuid r \<in> set uuids" for r
    using that by (auto simp add: actual_pairs_def host_in_true image_iff)
  have inI: "(u, q) \<in> ?KI \<longleftrightarrow> (u, q) \<in> ?D \<and>
     ((\<forall>m \<in> set t. \<not> (hmwp_profile_uuid m = q \<and> hmwp_host_uuid m = u)) \<or>
      (\<exists>m \<in> set t. hmwp_profile_uuid m = q \<and> hmwp_host_uuid m = u
          \<and> hmwp_operation_type m = Some MDMOperationTypeInstall \<and> hmwp_status m = None))" for u q
    by (rule in_install_pairs)
  have inI2: "(u, q) \<in> payload_pairs ?I2 \<longleftrightarrow> (u, q) \<in> ?D \<and>
     ((\<forall>m \<in> set t1. \<not> (hmwp_profile_uuid m = q \<and> hmwp_host_uuid m = u)) \<or>
      (\<exists>m \<in> set t1. hmwp_profile_uuid m = q \<and> hmwp_host_uuid m = u
          \<and> hmwp_operation_type m = Some MDMOperationTypeInstall \<and> hmwp_status m = None))" for u q
    by (rule in_install_pairs)
  have g1: "(r \<in> set ?t0 \<and> ?key r \<notin> ?KI) \<or> (reset_for_dispatch dd r \<and> ?key r \<in> ?KI)"
    if "r \<in> set t1" for r
    using that unfolding t1 by (rule fold_upsert_rows)
  have g2: "\<exists>r \<in> set t1. ?key r = k" if "k \<in> ?KI" for k
    unfolding t1 using that by (rule fold_upsert_has)
  have g3: "r \<in> set t1" if "r \<in> set ?t0" "?key r \<notin> ?KI" for r
    unfolding t1 using that by (rule fold_upsert_keeps_row)
  have KI_D: "?KI \<subseteq> ?D" using inI by auto
  \<comment> \<open>nothing is left to remove\<close>
  have "set (profiles_to_remove_rows mwcps hs mwes t1 uuids) = {}"
  proof -
    have False if m: "m \<in> set t1" "?key m \<notin> ?Dall" "hmwp_host_uuid m \<in> set uuids" for m
    proof -
      from g1[OF m(1)] show False
      proof
        assume a: "m \<in> set ?t0 \<and> ?key m \<notin> ?KI"
        then have "m \<in> set t" "?key m \<notin> payload_pairs R" unfolding t0 by auto
        moreover from act[OF \<open>m \<in> set t\<close> m(3)] m(2) have "?key m \<in> payload_pairs R"
          unfolding KR by simp
        ultimately show False by simp
      next
        assume "reset_for_dispatch dd m \<and> ?key m \<in> ?KI"
        with KI_D have "?key m \<in> ?D" by blast
        with m(2) show False unfolding D by simp
      qed
    qed
    then show ?thesis using ne by (auto simp add: remove_rows_set)
  qed
  then have R2: "listMDMWindowsProfilesToRemoveDB mwcps hs mwes t1 uuids = Inr []"
    by (rule remove_nothing)
  \<comment> \<open>the install set of the second run is that of the first\<close>
  have sub: "payload_pairs ?I2 \<subseteq> ?KI"
  proof
    fix k assume k: "k \<in> payload_pairs ?I2"
    obtain u q where uq: "k = (u, q)" by (cases k)
    from k have kD: "(u, q) \<in> ?D" unfolding uq using inI2 by blast
    show "k \<in> ?KI"
    proof (rule ccontr)
      assume n: "k \<notin> ?KI"
      with kD inI[of u q] obtain m0 where m0: "m0 \<in> set t" "?key m0 = (u, q)"
        and none: "\<forall>m \<in> set t. ?key m = (u, q) \<longrightarrow>
                      \<not> (hmwp_operation_type m = Some MDMOperationTypeInstall \<and> hmwp_status m = None)"
        unfolding uq by auto
      from kD have "(u, q) \<in> ?Dall" unfolding D by simp
      then have "(u, q) \<notin> payload_pairs R" unfolding KR by simp
      with m0 have "m0 \<in> set ?t0" unfolding t0 by simp
      with n m0(2) have "m0 \<in> set t1" unfolding uq by (intro g3) simp_all
      with m0(2) k inI2[of u q] obtain m where m: "m \<in> set t1" "?key m = (u, q)"
        "hmwp_operation_type m = Some MDMOperationTypeInstall" "hmwp_status m = None"
        unfolding uq by auto
      from g1[OF m(1)] n m(2) have "m \<in> set ?t0" unfolding uq by auto
      then have "m \<in> set t" unfolding t0 by simp
      with none m(2,3,4) show False by blast
    qed
  qed
  have reset: "reset_for_dispatch dd r" if "r \<in> set t1" "?key r \<in> ?KI" for r
    using g1[OF that(1)] that(2) by blast
  have sup: "?KI \<subseteq> payload_pairs ?I2"
  proof
    fix k assume k: "k \<in> ?KI"
    obtain u q where uq: "k = (u, q)" by (cases k)
    from g2[OF k] obtain r where r: "r \<in> set t1" "?key r = k" by blast
    with reset[of r] k have "reset_for_dispatch dd r" by simp
    then have "hmwp_operation_type r = Some MDMOperationTypeInstall" "hmwp_status r = None"
      by (simp_all add: reset_for_dispatch_def)
    with r k KI_D show "k \<in> payload_pairs ?I2" unfolding uq using inI2[of u q] by auto
  qed
  from sub sup have KI2: "payload_pairs ?I2 = ?KI" by blast
  have pre: "\<forall>p \<in> set ?I2. (\<exists>r \<in> set t1. same_key p r)
                        \<and> (\<forall>r \<in> set t1. same_key p r \<longrightarrow> reset_for_dispatch dd r)"
  proof
    fix p assume p: "p \<in> set ?I2"
    then have "(pp_HostUUID p, pp_ProfileUUID p) \<in> payload_pairs ?I2"
      by (auto simp add: payload_pairs_def)
    then have k: "(pp_HostUUID p, pp_ProfileUUID p) \<in> ?KI" using sub by blast
    from g2[OF k] have a: "\<exists>r \<in> set t1. same_key p r" by (simp add: same_key_iff)
    from reset k have b: "\<forall>r \<in> set t1. same_key p r \<longrightarrow> reset_for_dispatch dd r"
      by (simp add: same_key_iff)
    from a b show "(\<exists>r \<in> set t1. same_key p r)
                        \<and> (\<forall>r \<in> set t1. same_key p r \<longrightarrow> reset_for_dispatch dd r)" by blast
  qed
  have "bulkSetPendingMDMWindowsHostProfilesDB dd n1 n2 mwcps hs mwes uuids t1 =
          Inr (fold (upsert_pending_row dd) ?I2 (executeDeleteBatch [] t1))"
    by (rule bulkSetPending_eq[OF ne R2])
  also have "executeDeleteBatch [] t1 = t1" by (simp add: executeDeleteBatch_def)
  also have "fold (upsert_pending_row dd) ?I2 t1 =
           map (\<lambda>r. if ?key r \<in> payload_pairs ?I2 then r\<lparr> hmwp_detail := Some [] \<rparr> else r) t1"
    by (rule fold_upsert_reset[OF pre])
  finally have "bulkSetPendingMDMWindowsHostProfilesDB dd n1 n2 mwcps hs mwes uuids t1 =
           Inr (map (\<lambda>r. if ?key r \<in> ?KI then r\<lparr> hmwp_detail := Some [] \<rparr> else r) t1)"
    unfolding KI2 .
  with reset show ?thesis by blast
qed

text \<open>
  C6 (as the code has it). When a first run of \<open>bulkSetPendingMDMWindowsHostProfilesDB\<close>
  succeeds, a second run with the same host filter and the same desired-state tables
  succeeds too and leaves every row as the first run left it, except that it sets the
  detail of the rows of the install set to the empty string: a row the first run inserted
  holds the column's default until then. The keys and every other column are equal; the
  tables are equal when the column's default is the empty string.
\<close>

theorem set_pending_second_run:
  assumes "bulkSetPendingMDMWindowsHostProfilesDB dd n1 n2 mwcps hs mwes uuids t = Inr t1"
  shows "\<exists>t2. bulkSetPendingMDMWindowsHostProfilesDB dd n1 n2 mwcps hs mwes uuids t1 = Inr t2
      \<and> t2 = map (\<lambda>r. if uuids \<noteq> [] \<and> (hmwp_host_uuid r, hmwp_profile_uuid r)
                              \<in> payload_pairs (listMDMWindowsProfilesToInstallDB mwcps hs mwes t uuids)
                        then r\<lparr> hmwp_detail := Some [] \<rparr> else r) t1
      \<and> map (\<lambda>r. r\<lparr> hmwp_detail := None \<rparr>) t2 = map (\<lambda>r. r\<lparr> hmwp_detail := None \<rparr>) t1
      \<and> (dd = Some [] \<longrightarrow> t2 = t1)"
proof (cases "uuids = []")
  case True
  with assms have "t1 = t"
    by (simp add: bulkSetPendingMDMWindowsHostProfilesDB_def)
  with True show ?thesis
    by (simp add: bulkSetPendingMDMWindowsHostProfilesDB_def)
next
  case False
  let ?f = "\<lambda>r. if (hmwp_host_uuid r, hmwp_profile_uuid r)
                              \<in> payload_pairs (listMDMWindowsProfilesToInstallDB mwcps hs mwes t uuids)
                        then r\<lparr> hmwp_detail := Some [] \<rparr> else r"
  from second_run[OF assms False]
  have run2: "bulkSetPendingMDMWindowsHostProfilesDB dd n1 n2 mwcps hs mwes uuids t1 = Inr (map ?f t1)"
    and reset: "\<forall>r \<in> set t1. (hmwp_host_uuid r, hmwp_profile_uuid r)
                              \<in> payload_pairs (listMDMWindowsProfilesToInstallDB mwcps hs mwes t uuids)
              \<longrightarrow> reset_for_dispatch dd r"
    by blast+
  have erase: "map (\<lambda>r. r\<lparr> hmwp_detail := None \<rparr>) (map ?f t1) = map (\<lambda>r. r\<lparr> hmwp_detail := None \<rparr>) t1"
    by (simp add: comp_def if_distrib cong: if_cong)
  have same: "map ?f t1 = t1" if dd: "dd = Some []"
  proof (rule map_idI)
    fix r assume r: "r \<in> set t1"
    show "?f r = r"
    proof (cases "(hmwp_host_uuid r, hmwp_profile_uuid r)
                              \<in> payload_pairs (listMDMWindowsProfilesToInstallDB mwcps hs mwes t uuids)")
      case True
      with reset r have "reset_for_dispatch dd r" by blast
      with dd have "hmwp_detail r = Some []" by (auto simp add: reset_for_dispatch_def)
      then have "r\<lparr> hmwp_detail := Some [] \<rparr> = r" by (cases r) simp
      with True show ?thesis by simp
    next
      case False
      then show ?thesis by simp
    qed
  qed
  from run2 erase same False show ?thesis by simp
qed

theorem set_pending_second_run_witness:
  "bulkSetPendingMDMWindowsHostProfilesDB (Some []) 0 0
     [\<lparr> mwcp_profile_uuid = ''P1'', mwcp_team_id = 1, mwcp_name = ''n1'', mwcp_syncml = ''x'' \<rparr>]
     [\<lparr> h_id = 1, h_uuid = ''H1'', h_platform = ''windows'', h_team_id = Some 1 \<rparr>]
     [\<lparr> mwe_id = 1, mwe_mdm_device_id = ''D1'', mwe_mdm_hardware_id = ''HW1'',
        mwe_host_uuid = ''H1'' \<rparr>]
     [''H1'']
     [\<lparr> hmwp_host_uuid = ''H1'', hmwp_profile_uuid = ''P1'', hmwp_status = None,
        hmwp_operation_type = Some ''install'', hmwp_detail = Some [],
        hmwp_command_uuid = [], hmwp_profile_name = ''n1'' \<rparr>]
   = Inr [\<lparr> hmwp_host_uuid = ''H1'', hmwp_profile_uuid = ''P1'', hmwp_status = None,
        hmwp_operation_type = Some ''install'', hmwp_detail = Some [],
        hmwp_command_uuid = [], hmwp_profile_name = ''n1'' \<rparr>]"
proof -
  have first: "bulkSetPendingMDMWindowsHostProfilesDB (Some []) 0 0
     [\<lparr> mwcp_profile_uuid = ''P1'', mwcp_team_id = 1, mwcp_name = ''n1'', mwcp_syncml = ''x'' \<rparr>]
     [\<lparr> h_id = 1, h_uuid = ''H1'', h_platform = ''windows'', h_team_id = Some 1 \<rparr>]
     [\<lparr> mwe_id = 1, mwe_mdm_device_id = ''D1'', mwe_mdm_hardware_id = ''HW1'',
        mwe_host_uuid = ''H1'' \<rparr>]
     [''H1'']
     [\<lparr> hmwp_host_uuid = ''H1'', hmwp_profile_uuid = ''P2'', hmwp_status = Some ''verified'',
        hmwp_operation_type = Some ''install'', hmwp_detail = Some [],
        hmwp_command_uuid = ''C9'', hmwp_profile_name = ''old'' \<rparr>]
   = Inr [\<lparr> hmwp_host_uuid = ''H1'', hmwp_profile_uuid = ''P1'', hmwp_status = None,
        hmwp_operation_type = Some ''install'', hmwp_detail = Some [],
        hmwp_command_uuid = [], hmwp_profile_name = ''n1'' \<rparr>]"
    by (simp add: bulkSetPendingMDMWindowsHostProfilesDB_def
          listMDMWindowsProfilesToInstallDB_def listMDMWindowsProfilesToRemoveDB_def
          profiles_to_remove_rows_def desired_state_def left_join_def inner_join_def
          team_join_def host_in_def sql_defs delivery_defs
          bulkDeleteMDMWindowsHostsConfigProfilesDB_def executeDeleteBatch_def
          executeUpsertBatch_def upsert_pending_row_def same_key_def batch_size_def Let_def)
  from set_pending_second_run[OF first] show ?thesis by auto
qed

text \<open>
  The claim as stated fails when the column's default is NULL: the first run inserts the
  row (H1, P1) with a NULL detail, and the second run, with nothing else changed, updates
  its detail to the empty string.
\<close>

theorem set_pending_twice_counterexample:
  "(case bulkSetPendingMDMWindowsHostProfilesDB None 0 0
       [\<lparr> mwcp_profile_uuid = ''P1'', mwcp_team_id = 1, mwcp_name = ''n1'', mwcp_syncml = ''x'' \<rparr>]
       [\<lparr> h_id = 1, h_uuid = ''H1'', h_platform = ''windows'', h_team_id = Some 1 \<rparr>]
       [\<lparr> mwe_id = 1, mwe_mdm_device_id = ''D1'', mwe_mdm_hardware_id = ''HW1'',
          mwe_host_uuid = ''H1'' \<rparr>]
       [''H1''] [] of
      Inl e \<Rightarrow> None
    | Inr t1 \<Rightarrow>
        Some (t1,
          bulkSetPendingMDMWindowsHostProfilesDB None 0 0
            [\<lparr> mwcp_profile_uuid = ''P1'', mwcp_team_id = 1, mwcp_name = ''n1'', mwcp_syncml = ''x'' \<rparr>]
            [\<lparr> h_id = 1, h_uuid = ''H1'', h_platform = ''windows'', h_team_id = Some 1 \<rparr>]
            [\<lparr> mwe_id = 1, mwe_mdm_device_id = ''D1'', mwe_mdm_hardware_id = ''HW1'',
               mwe_host_uuid = ''H1'' \<rparr>]
            [''H1''] t1))
   = Some ([\<lparr> hmwp_host_uuid = ''H1'', hmwp_profile_uuid = ''P1'', hmwp_status = None,
              hmwp_operation_type = Some ''install'', hmwp_detail = None,
              hmwp_command_uuid = [], hmwp_profile_name = ''n1'' \<rparr>],
           Inr [\<lparr> hmwp_host_uuid = ''H1'', hmwp_profile_uuid = ''P1'', hmwp_status = None,
              hmwp_operation_type = Some ''install'', hmwp_detail = Some [],
              hmwp_command_uuid = [], hmwp_profile_name = ''n1'' \<rparr>])"
  by (simp add: bulkSetPendingMDMWindowsHostProfilesDB_def
          listMDMWindowsProfilesToInstallDB_def listMDMWindowsProfilesToRemoveDB_def
          profiles_to_remove_rows_def desired_state_def left_join_def inner_join_def
          team_join_def host_in_def sql_defs delivery_defs
          bulkDeleteMDMWindowsHostsConfigProfilesDB_def executeDeleteBatch_def
          executeUpsertBatch_def upsert_pending_row_def same_key_def batch_size_def Let_def)

end
